theory Spec2Isabelle
  imports Complex_Main "HOL-Library.Product_Lexorder"
begin

section \<open>Conventions\<close>

text \<open>
  Python floats are modelled as real numbers with exact arithmetic wherever the code only
  calculates with them (\<open>backend/utils/audio.py\<close>).  Where a float is read from text
  (\<open>backend/config.py\<close>) the non-finite values that \<open>float(raw)\<close> can produce are part
  of the model, see the type \<open>pyfloat\<close> below.  Exceptions are values of type \<open>error\<close>.
\<close>

datatype error = ValueError string | OverflowError string

text \<open>\<open>int(x)\<close> on a finite float truncates toward zero.\<close>

definition py_int :: "real \<Rightarrow> int" where
  "py_int x = (if 0 \<le> x then \<lfloor>x\<rfloor> else \<lceil>x\<rceil>)"

text \<open>\<open>xs[s:e]\<close> for \<open>0 \<le> s \<le> e\<close>.\<close>

definition slice :: "'a list \<Rightarrow> nat \<Rightarrow> nat \<Rightarrow> 'a list" where
  "slice xs s e = take (e - s) (drop s xs)"

text \<open>\<open>list(range(0, stop, step))\<close> for \<open>step \<ge> 1\<close>.\<close>

definition py_range :: "nat \<Rightarrow> nat \<Rightarrow> nat list" where
  "py_range stop step = map (\<lambda>k. k * step) [0 ..< (stop + step - 1) div step]"

text \<open>
  \<open>max(xs, key=f)\<close>: the first element whose key is not exceeded by a later one; on an
  empty list Python raises, which is \<open>None\<close> here.
\<close>

definition py_max_key :: "('a \<Rightarrow> 'k::linorder) \<Rightarrow> 'a list \<Rightarrow> 'a option" where
  "py_max_key f xs =
     (case xs of
        [] \<Rightarrow> None
      | x # rest \<Rightarrow> Some (fold (\<lambda>y best. if f best < f y then y else best) rest x))"


section \<open>Quality metrics and segment selection (\<open>backend/utils/audio.py\<close>)\<close>

record metrics =
  duration_seconds :: real
  rms :: real
  silence_ratio :: real
  clipping_ratio :: real
  peak_abs :: real

definition mean :: "real list \<Rightarrow> real" where
  "mean xs = sum_list xs / real (length xs)"

text \<open>\<open>np.mean\<close> of a boolean array: the fraction of \<open>True\<close> entries.\<close>

definition bool_mean :: "bool list \<Rightarrow> real" where
  "bool_mean bs = mean (map (\<lambda>b. if b then 1 else 0) bs)"

definition compute_quality_metrics :: "real list \<Rightarrow> real \<Rightarrow> real \<Rightarrow> metrics" where
  "compute_quality_metrics audio silence_threshold clipping_threshold =
     (if audio = [] then
        \<lparr>duration_seconds = 0, rms = 0, silence_ratio = 1, clipping_ratio = 1, peak_abs = 0\<rparr>
      else
        let abs_audio = map abs audio in
        \<lparr>duration_seconds = real (length audio),
         rms = sqrt (mean (map (\<lambda>x. x\<^sup>2) audio)),
         silence_ratio = bool_mean (map (\<lambda>a. a \<le> silence_threshold) abs_audio),
         clipping_ratio = bool_mean (map (\<lambda>a. clipping_threshold \<le> a) abs_audio),
         peak_abs = Max (set abs_audio)\<rparr>)"

text \<open>The default thresholds of \<open>compute_quality_metrics\<close>.\<close>

definition default_silence_threshold :: real where
  "default_silence_threshold = 1 / 100"

definition default_clipping_threshold :: real where
  "default_clipping_threshold = 99 / 100"

record candidate =
  c_start :: nat
  c_end :: nat
  c_eligible :: bool
  c_score :: real
  c_metrics :: metrics

record metadata =
  selected_start_ms :: int
  selected_end_ms :: int
  source_duration_ms :: int
  meta_metrics :: metrics
  fallback_reason :: "string option"
  meta_policy_version :: string

text \<open>
  \<open>window_samples = min(max(1, int(recommended_target_seconds * sample_rate)), audio.shape[0])\<close>
\<close>

definition window_samples :: "nat \<Rightarrow> int \<Rightarrow> real \<Rightarrow> nat" where
  "window_samples n sample_rate recommended_target_seconds =
     nat (min (max 1 (py_int (recommended_target_seconds * real_of_int sample_rate))) (int n))"

definition step_samples :: "int \<Rightarrow> real \<Rightarrow> nat" where
  "step_samples sample_rate selection_step_seconds =
     nat (max 1 (py_int (selection_step_seconds * real_of_int sample_rate)))"

text \<open>The start offsets of the scan; the last window is appended when the stride misses it.\<close>

definition scan_starts :: "nat \<Rightarrow> nat \<Rightarrow> nat list" where
  "scan_starts last_start step =
     (let starts = py_range (last_start + 1) step
      in if last starts \<noteq> last_start then starts @ [last_start] else starts)"

text \<open>The body of the loop over \<open>starts\<close>: one scored candidate per window.\<close>

definition score_window ::
  "real list \<Rightarrow> int \<Rightarrow> nat \<Rightarrow> real \<Rightarrow> real \<Rightarrow> real \<Rightarrow> nat \<Rightarrow> candidate" where
  "score_window audio sample_rate window min_rms max_silence_ratio max_clipping_ratio start =
     (let rms_norm_denom = max (min_rms * 2) (1 / 10 ^ 8);
          end = start + window;
          segment = slice audio start end;
          m = (compute_quality_metrics segment default_silence_threshold default_clipping_threshold)
                \<lparr>duration_seconds := real (length segment) / real_of_int sample_rate\<rparr>;
          eligible = (min_rms \<le> rms m \<and> silence_ratio m \<le> max_silence_ratio
                      \<and> clipping_ratio m \<le> max_clipping_ratio);
          normalized_rms = min (rms m / rms_norm_denom) (3 / 2);
          score = (1 - silence_ratio m) * (45 / 100) + normalized_rms * (40 / 100)
                  + (1 - clipping_ratio m) * (15 / 100);
          score = (if \<not> eligible then score - 1 else score)
      in \<lparr>c_start = start, c_end = end, c_eligible = eligible, c_score = score, c_metrics = m\<rparr>)"

definition scan_candidates ::
  "real list \<Rightarrow> int \<Rightarrow> real \<Rightarrow> real \<Rightarrow> real \<Rightarrow> real \<Rightarrow> real \<Rightarrow> candidate list" where
  "scan_candidates audio sample_rate recommended_target_seconds min_rms max_silence_ratio
       max_clipping_ratio selection_step_seconds =
     (let window = window_samples (length audio) sample_rate recommended_target_seconds;
          step = step_samples sample_rate selection_step_seconds;
          last_start = length audio - window
      in map (score_window audio sample_rate window min_rms max_silence_ratio max_clipping_ratio)
             (scan_starts last_start step))"

definition eligible_key :: "candidate \<Rightarrow> real \<times> real \<times> real" where
  "eligible_key c = (c_score c, - silence_ratio (c_metrics c), rms (c_metrics c))"

definition fallback_key :: "candidate \<Rightarrow> real \<times> real \<times> real" where
  "fallback_key c =
     (- silence_ratio (c_metrics c), rms (c_metrics c), - clipping_ratio (c_metrics c))"

definition select_best_reference_segment ::
  "real list \<Rightarrow> int \<Rightarrow> real \<Rightarrow> real \<Rightarrow> real \<Rightarrow> real \<Rightarrow> real \<Rightarrow> string
     \<Rightarrow> error + (real list \<times> metadata)" where
  "select_best_reference_segment audio sample_rate recommended_target_seconds min_rms
       max_silence_ratio max_clipping_ratio selection_step_seconds version =
     (if audio = [] then Inl (ValueError ''Cannot select reference segment from empty audio'')
      else if sample_rate \<le> 0 then Inl (ValueError ''sample_rate must be > 0'')
      else
        let total_duration_seconds = real (length audio) / real_of_int sample_rate;
            window = window_samples (length audio) sample_rate recommended_target_seconds
        in
        if length audio \<le> window then
          Inr (audio,
               \<lparr>selected_start_ms = 0,
                selected_end_ms = py_int (total_duration_seconds * 1000),
                source_duration_ms = py_int (total_duration_seconds * 1000),
                meta_metrics =
                  (compute_quality_metrics audio default_silence_threshold default_clipping_threshold)
                    \<lparr>duration_seconds := real (length audio) / real_of_int sample_rate\<rparr>,
                fallback_reason = None,
                meta_policy_version = version\<rparr>)
        else
          let candidates = scan_candidates audio sample_rate recommended_target_seconds min_rms
                             max_silence_ratio max_clipping_ratio selection_step_seconds;
              eligible_candidates = filter c_eligible candidates;
              (best, reason) =
                (if eligible_candidates \<noteq> [] then
                   (py_max_key eligible_key eligible_candidates, None)
                 else
                   (py_max_key fallback_key candidates,
                    Some ''no_segment_met_quality_thresholds''))
          in
          case best of
            None \<Rightarrow> Inl (ValueError ''max() arg is an empty sequence'')
          | Some b \<Rightarrow>
              Inr (slice audio (c_start b) (c_end b),
                   \<lparr>selected_start_ms =
                      py_int (real (c_start b) / real_of_int sample_rate * 1000),
                    selected_end_ms =
                      py_int (real (c_end b) / real_of_int sample_rate * 1000),
                    source_duration_ms = py_int (total_duration_seconds * 1000),
                    meta_metrics = c_metrics b,
                    fallback_reason = reason,
                    meta_policy_version = version\<rparr>))"


section \<open>Recording-processing tasks (\<open>backend/utils/tasks.py\<close>)\<close>

text \<open>
  \<open>RecordingProcessingTask\<close> objects are mutable and shared by reference: the dictionary
  \<open>_active_recording_tasks\<close> holds references, and so does every list handed to a caller.
  The model therefore has an explicit store of task objects.  Timestamps are integers
  (microseconds, the resolution of \<open>datetime\<close>); the value of \<open>_now_utc()\<close> is a parameter
  \<open>now\<close> of each operation, one instant per critical section.  The lock is not modelled:
  each operation is one atomic step.  The download and generation dictionaries of
  \<open>TaskManager\<close> are independent of the recording tasks and left out.
\<close>

definition PROCESSING_STAGES :: "string list" where
  "PROCESSING_STAGES = [''upload'', ''validate'', ''transcribe'', ''embed'', ''save'']"

record RecordingProcessingTask =
  task_id :: string
  stage :: string
  status :: string
  progress :: "real option"
  message :: "string option"
  error :: "string option"
  started_at :: int
  updated_at :: int

type_synonym addr = nat

record TaskManager =
  heap :: "addr \<rightharpoonup> RecordingProcessingTask"
  next_addr :: addr
  active_recording_tasks :: "(string \<times> addr) list"

definition new_task_manager :: TaskManager where
  "new_task_manager = \<lparr>heap = Map.empty, next_addr = 0, active_recording_tasks = []\<rparr>"

text \<open>Dictionary operations on an insertion-ordered association list.\<close>

fun dict_set :: "('k \<times> 'v) list \<Rightarrow> 'k \<Rightarrow> 'v \<Rightarrow> ('k \<times> 'v) list" where
  "dict_set [] k v = [(k, v)]"
| "dict_set ((k', v') # d) k v = (if k' = k then (k, v) # d else (k', v') # dict_set d k v)"

definition dict_del :: "('k \<times> 'v) list \<Rightarrow> 'k \<Rightarrow> ('k \<times> 'v) list" where
  "dict_del d k = filter (\<lambda>kv. fst kv \<noteq> k) d"

text \<open>Creating an object, and assigning to attributes of the object behind a reference.\<close>

definition alloc :: "RecordingProcessingTask \<Rightarrow> TaskManager \<Rightarrow> addr \<times> TaskManager" where
  "alloc t s = (next_addr s, s\<lparr>heap := (heap s)(next_addr s \<mapsto> t), next_addr := Suc (next_addr s)\<rparr>)"

definition modify ::
  "addr \<Rightarrow> (RecordingProcessingTask \<Rightarrow> RecordingProcessingTask) \<Rightarrow> TaskManager \<Rightarrow> TaskManager" where
  "modify a f s = s\<lparr>heap := (heap s)(a := map_option f (heap s a))\<rparr>"

text \<open>\<open>x or default\<close> on an optional string: \<open>None\<close> and the empty string are falsy.\<close>

definition str_or :: "string option \<Rightarrow> string \<Rightarrow> string" where
  "str_or x d = (case x of None \<Rightarrow> d | Some v \<Rightarrow> if v = [] then d else v)"

text \<open>\<open>RecordingProcessingTask(task_id=task_id)\<close> with the dataclass defaults.\<close>

definition default_task :: "string \<Rightarrow> int \<Rightarrow> RecordingProcessingTask" where
  "default_task tid now =
     \<lparr>task_id = tid, stage = ''upload'', status = ''running'', progress = Some 0,
      message = None, error = None, started_at = now, updated_at = now\<rparr>"

text \<open>\<open>task = d.get(task_id); if task is None: task = Task(task_id); d[task_id] = task\<close>\<close>

definition get_or_create :: "string \<Rightarrow> int \<Rightarrow> TaskManager \<Rightarrow> addr \<times> TaskManager" where
  "get_or_create tid now s =
     (case map_of (active_recording_tasks s) tid of
        Some a \<Rightarrow> (a, s)
      | None \<Rightarrow>
          let (a, s') = alloc (default_task tid now) s
          in (a, s'\<lparr>active_recording_tasks := dict_set (active_recording_tasks s') tid a\<rparr>))"

definition start_recording_processing ::
  "string \<Rightarrow> string option \<Rightarrow> int \<Rightarrow> TaskManager \<Rightarrow> TaskManager" where
  "start_recording_processing tid msg now s =
     (let (a, s') = alloc \<lparr>task_id = tid, stage = ''upload'', status = ''running'',
                           progress = Some 0, message = Some (str_or msg ''Uploading sample''),
                           error = None, started_at = now, updated_at = now\<rparr> s
      in s'\<lparr>active_recording_tasks := dict_set (active_recording_tasks s') tid a\<rparr>)"

definition update_recording_processing ::
  "string \<Rightarrow> string \<Rightarrow> real option \<Rightarrow> string option \<Rightarrow> int \<Rightarrow> TaskManager
     \<Rightarrow> (error + unit) \<times> TaskManager" where
  "update_recording_processing tid stg prog msg now s =
     (if stg \<notin> set PROCESSING_STAGES then
        (Inl (ValueError (''Invalid processing stage: '' @ stg)), s)
      else
        let (a, s') = get_or_create tid now s
        in (Inr (),
            modify a (\<lambda>t. t\<lparr>stage := stg, status := ''running'', updated_at := now,
                            error := None,
                            progress := (case prog of None \<Rightarrow> progress t
                                         | Some p \<Rightarrow> Some (max 0 (min 100 p))),
                            message := (case msg of None \<Rightarrow> message t | Some m \<Rightarrow> Some m)\<rparr>)
              s'))"

definition complete_recording_processing ::
  "string \<Rightarrow> string \<Rightarrow> string option \<Rightarrow> int \<Rightarrow> TaskManager \<Rightarrow> TaskManager" where
  "complete_recording_processing tid stg msg now s =
     (case map_of (active_recording_tasks s) tid of
        None \<Rightarrow> s
      | Some a \<Rightarrow>
          let s' = modify a (\<lambda>t. t\<lparr>stage := stg, status := ''complete'', progress := Some 100,
                                    message := Some (str_or msg ''Sample saved''),
                                    updated_at := now\<rparr>) s
          in s'\<lparr>active_recording_tasks := dict_del (active_recording_tasks s') tid\<rparr>)"

definition error_recording_processing ::
  "string \<Rightarrow> string \<Rightarrow> string option \<Rightarrow> string option \<Rightarrow> int \<Rightarrow> TaskManager \<Rightarrow> TaskManager" where
  "error_recording_processing tid err stg msg now s =
     (let (a, s') = get_or_create tid now s
      in modify a (\<lambda>t. t\<lparr>stage := (case stg of
                                       None \<Rightarrow> stage t
                                     | Some g \<Rightarrow> if g \<in> set PROCESSING_STAGES then g else stage t),
                          status := ''error'', error := Some err,
                          message := Some (str_or msg err), updated_at := now\<rparr>) s')"

definition complete_error_recording_processing :: "string \<Rightarrow> TaskManager \<Rightarrow> TaskManager" where
  "complete_error_recording_processing tid s =
     (if tid \<in> fst ` set (active_recording_tasks s)
      then s\<lparr>active_recording_tasks := dict_del (active_recording_tasks s) tid\<rparr> else s)"

text \<open>\<open>timedelta(seconds=30)\<close> in microseconds.\<close>

definition expiry_seconds :: int where
  "expiry_seconds = 30 * 1000000"

definition stale_error :: "int \<Rightarrow> TaskManager \<Rightarrow> addr \<Rightarrow> bool" where
  "stale_error expiry_cutoff s a =
     (case heap s a of
        None \<Rightarrow> False
      | Some t \<Rightarrow> status t = ''error'' \<and> updated_at t < expiry_cutoff)"

text \<open>
  The result is \<open>list(self._active_recording_tasks.values())\<close>: a new list holding the
  references that the dictionary holds.
\<close>

definition get_active_recording_tasks :: "int \<Rightarrow> TaskManager \<Rightarrow> addr list \<times> TaskManager" where
  "get_active_recording_tasks now s =
     (let expiry_cutoff = now - expiry_seconds;
          stale_error_ids =
            map fst (filter (\<lambda>kv. stale_error expiry_cutoff s (snd kv)) (active_recording_tasks s));
          s' = fold (\<lambda>tid st. st\<lparr>active_recording_tasks := dict_del (active_recording_tasks st) tid\<rparr>)
                 stale_error_ids s
      in (map snd (active_recording_tasks s'), s'))"

definition is_recording_processing_active :: "string \<Rightarrow> TaskManager \<Rightarrow> bool" where
  "is_recording_processing_active tid s \<longleftrightarrow> tid \<in> fst ` set (active_recording_tasks s)"

text \<open>
  What the tracker itself sees for an id, \<open>self._active_recording_tasks[tid]\<close>, and what a
  caller holding a reference can do to the object behind it, \<open>ref.field = value\<close> for any
  of its fields.
\<close>

definition task_of :: "TaskManager \<Rightarrow> string \<Rightarrow> RecordingProcessingTask option" where
  "task_of s tid = (case map_of (active_recording_tasks s) tid of None \<Rightarrow> None | Some a \<Rightarrow> heap s a)"

definition caller_write :: "addr \<Rightarrow> RecordingProcessingTask \<Rightarrow> TaskManager \<Rightarrow> TaskManager" where
  "caller_write a t s = (if heap s a = None then s else s\<lparr>heap := (heap s)(a \<mapsto> t)\<rparr>)"

text \<open>
  Well-formed tracker states: the dictionary has unique keys, every entry refers to an
  allocated object of its own, and that object carries the entry's id.
\<close>

definition wf_manager :: "TaskManager \<Rightarrow> bool" where
  "wf_manager s \<longleftrightarrow>
     distinct (map fst (active_recording_tasks s))
     \<and> distinct (map snd (active_recording_tasks s))
     \<and> (\<forall>(k, a) \<in> set (active_recording_tasks s).
            a < next_addr s \<and> (\<exists>t. heap s a = Some t \<and> task_id t = k))"


section \<open>Voice-clone reference policy (\<open>backend/config.py\<close>)\<close>

text \<open>
  \<open>float(raw)\<close> accepts the texts \<open>inf\<close>, \<open>-inf\<close> and \<open>nan\<close>, and the validator
  compares and converts what it is given, so the policy's float fields range over the
  finite reals and the three special values.  Comparisons follow IEEE 754: every
  comparison with NaN is false.
\<close>

datatype pyfloat = Finite real | PosInf | NegInf | NaN

fun fle :: "pyfloat \<Rightarrow> pyfloat \<Rightarrow> bool" where
  "fle NaN _ = False"
| "fle _ NaN = False"
| "fle NegInf _ = True"
| "fle _ PosInf = True"
| "fle (Finite a) (Finite b) = (a \<le> b)"
| "fle PosInf _ = False"
| "fle (Finite a) NegInf = False"

fun fgt :: "pyfloat \<Rightarrow> pyfloat \<Rightarrow> bool" where
  "fgt NaN _ = False"
| "fgt _ NaN = False"
| "fgt (Finite a) (Finite b) = (b < a)"
| "fgt PosInf PosInf = False"
| "fgt PosInf _ = True"
| "fgt _ PosInf = False"
| "fgt NegInf _ = False"
| "fgt (Finite a) NegInf = True"

text \<open>\<open>int(x)\<close> on a float.\<close>

fun float_int :: "pyfloat \<Rightarrow> error + int" where
  "float_int (Finite x) = Inr (py_int x)"
| "float_int NaN = Inl (ValueError ''cannot convert float NaN to integer'')"
| "float_int _ = Inl (OverflowError ''cannot convert float infinity to integer'')"

record VoiceCloneReferencePolicy =
  hard_min_seconds :: pyfloat
  recommended_target_seconds :: pyfloat
  hard_max_seconds :: pyfloat
  capture_auto_stop_seconds :: int
  min_rms :: pyfloat
  max_silence_ratio :: pyfloat
  max_clipping_ratio :: pyfloat
  selection_step_seconds :: pyfloat
  policy_version :: string

definition DEFAULT_VOICE_CLONE_POLICY :: VoiceCloneReferencePolicy where
  "DEFAULT_VOICE_CLONE_POLICY =
     \<lparr>hard_min_seconds = Finite 2, recommended_target_seconds = Finite 15,
      hard_max_seconds = Finite 60, capture_auto_stop_seconds = 29,
      min_rms = Finite (1 / 100), max_silence_ratio = Finite (45 / 100),
      max_clipping_ratio = Finite (2 / 100), selection_step_seconds = Finite (1 / 2),
      policy_version = ''v1''\<rparr>"

text \<open>
  The environment is a map from variable names to texts.  The parsers \<open>float(raw)\<close> and
  \<open>int(raw)\<close> of the Python library are parameters \<open>pf\<close> and \<open>pint\<close>; \<open>None\<close> stands for
  their \<open>ValueError\<close>.  The diagnostic \<open>print\<close>s are not modelled.
\<close>

type_synonym environ = "string \<rightharpoonup> string"

definition env_float ::
  "(string \<Rightarrow> pyfloat option) \<Rightarrow> environ \<Rightarrow> string \<Rightarrow> pyfloat \<Rightarrow> pyfloat" where
  "env_float pf env name dflt =
     (case env name of
        None \<Rightarrow> dflt
      | Some raw \<Rightarrow>
          if raw = [] then dflt
          else (case pf raw of Some x \<Rightarrow> x | None \<Rightarrow> dflt))"

definition env_int :: "(string \<Rightarrow> int option) \<Rightarrow> environ \<Rightarrow> string \<Rightarrow> int \<Rightarrow> int" where
  "env_int pint env name dflt =
     (case env name of
        None \<Rightarrow> dflt
      | Some raw \<Rightarrow>
          if raw = [] then dflt
          else (case pint raw of Some x \<Rightarrow> x | None \<Rightarrow> dflt))"

text \<open>\<open>sep.join(xs)\<close>\<close>

fun join :: "string \<Rightarrow> string list \<Rightarrow> string" where
  "join sep [] = []"
| "join sep [x] = x"
| "join sep (x # y # ys) = x @ sep @ join sep (y # ys)"

definition issue :: "bool \<Rightarrow> string \<Rightarrow> string list" where
  "issue c msg = (if c then [msg] else [])"

text \<open>
  The checks run in the source's order; the seventh evaluates \<open>int(policy.hard_max_seconds)\<close>,
  whose exception leaves the function.
\<close>

definition validate_voice_clone_policy ::
  "VoiceCloneReferencePolicy \<Rightarrow> error + (bool \<times> string)" where
  "validate_voice_clone_policy policy =
     (let issues =
            issue (fle (hard_min_seconds policy) (Finite 0)) ''hard_min_seconds must be > 0''
          @ issue (fle (recommended_target_seconds policy) (Finite 0))
              ''recommended_target_seconds must be > 0''
          @ issue (fle (hard_max_seconds policy) (Finite 0)) ''hard_max_seconds must be > 0''
          @ issue (fgt (hard_min_seconds policy) (recommended_target_seconds policy))
              ''hard_min_seconds must be <= recommended_target_seconds''
          @ issue (fgt (recommended_target_seconds policy) (hard_max_seconds policy))
              ''recommended_target_seconds must be <= hard_max_seconds''
          @ issue (capture_auto_stop_seconds policy \<le> 0)
              ''capture_auto_stop_seconds must be > 0''
      in case float_int (hard_max_seconds policy) of
           Inl e \<Rightarrow> Inl e
         | Inr hard_max_int \<Rightarrow>
             let issues = issues
                   @ issue (hard_max_int < capture_auto_stop_seconds policy)
                       ''capture_auto_stop_seconds must be <= hard_max_seconds''
                   @ issue (fle (min_rms policy) (Finite 0)) ''min_rms must be > 0''
                   @ issue (\<not> (fle (Finite 0) (max_silence_ratio policy)
                                \<and> fle (max_silence_ratio policy) (Finite 1)))
                       ''max_silence_ratio must be between 0 and 1''
                   @ issue (\<not> (fle (Finite 0) (max_clipping_ratio policy)
                                \<and> fle (max_clipping_ratio policy) (Finite 1)))
                       ''max_clipping_ratio must be between 0 and 1''
                   @ issue (fle (selection_step_seconds policy) (Finite 0))
                       ''selection_step_seconds must be > 0''
             in if issues \<noteq> [] then Inr (False, join ''; '' issues) else Inr (True, []))"

text \<open>The policy as read from the environment, before validation.\<close>

definition resolve_voice_clone_reference_policy ::
  "(string \<Rightarrow> pyfloat option) \<Rightarrow> (string \<Rightarrow> int option) \<Rightarrow> environ
     \<Rightarrow> VoiceCloneReferencePolicy" where
  "resolve_voice_clone_reference_policy pf pint env =
     \<lparr>hard_min_seconds =
        env_float pf env ''VOICE_CLONE_REF_HARD_MIN_SECONDS''
          (hard_min_seconds DEFAULT_VOICE_CLONE_POLICY),
      recommended_target_seconds =
        env_float pf env ''VOICE_CLONE_REF_RECOMMENDED_TARGET_SECONDS''
          (recommended_target_seconds DEFAULT_VOICE_CLONE_POLICY),
      hard_max_seconds =
        env_float pf env ''VOICE_CLONE_REF_HARD_MAX_SECONDS''
          (hard_max_seconds DEFAULT_VOICE_CLONE_POLICY),
      capture_auto_stop_seconds =
        env_int pint env ''VOICE_CLONE_REF_CAPTURE_AUTO_STOP_SECONDS''
          (capture_auto_stop_seconds DEFAULT_VOICE_CLONE_POLICY),
      min_rms = env_float pf env ''VOICE_CLONE_REF_MIN_RMS'' (min_rms DEFAULT_VOICE_CLONE_POLICY),
      max_silence_ratio =
        env_float pf env ''VOICE_CLONE_REF_MAX_SILENCE_RATIO''
          (max_silence_ratio DEFAULT_VOICE_CLONE_POLICY),
      max_clipping_ratio =
        env_float pf env ''VOICE_CLONE_REF_MAX_CLIPPING_RATIO''
          (max_clipping_ratio DEFAULT_VOICE_CLONE_POLICY),
      selection_step_seconds =
        env_float pf env ''VOICE_CLONE_REF_SELECTION_STEP_SECONDS''
          (selection_step_seconds DEFAULT_VOICE_CLONE_POLICY),
      policy_version =
        (case env ''VOICE_CLONE_REF_POLICY_VERSION'' of
           None \<Rightarrow> policy_version DEFAULT_VOICE_CLONE_POLICY
         | Some v \<Rightarrow> v)\<rparr>"

definition load_voice_clone_reference_policy ::
  "(string \<Rightarrow> pyfloat option) \<Rightarrow> (string \<Rightarrow> int option) \<Rightarrow> environ
     \<Rightarrow> error + VoiceCloneReferencePolicy" where
  "load_voice_clone_reference_policy pf pint env =
     (let policy = resolve_voice_clone_reference_policy pf pint env
      in case validate_voice_clone_policy policy of
           Inl e \<Rightarrow> Inl e
         | Inr (is_valid, reason) \<Rightarrow>
             if \<not> is_valid then Inr DEFAULT_VOICE_CLONE_POLICY else Inr policy)"


section \<open>Reference statements and example inputs\<close>

text \<open>
  The fallback order in the words of the specification, ``silence ratio ascending, then
  rms descending, then clipping ratio ascending'': \<open>a\<close> is at least as good as \<open>b\<close>.
\<close>

definition fallback_order_spec :: "metrics \<Rightarrow> metrics \<Rightarrow> bool" where
  "fallback_order_spec a b \<longleftrightarrow>
     silence_ratio a < silence_ratio b
     \<or> (silence_ratio a = silence_ratio b
        \<and> (rms b < rms a \<or> (rms a = rms b \<and> clipping_ratio a \<le> clipping_ratio b)))"

text \<open>
  Two eight-sample and four-sample buffers used as concrete inputs: a very quiet window
  followed by a loud one with a single clipped sample, and a silent window followed by a
  voiced one.
\<close>

definition score_gap_audio :: "real list" where
  "score_gap_audio = replicate 4 (2 / 10 ^ 10) @ [1, 3 / 5, 1 / 5, 1 / 5]"

definition voiced_gap_audio :: "real list" where
  "voiced_gap_audio = replicate 2 0 @ replicate 2 (1 / 5)"

text \<open>
  A tracker in which task \<open>t1\<close> was started and then failed, both at time \<open>0\<close>.
\<close>

definition failed_task_manager :: TaskManager where
  "failed_task_manager =
     error_recording_processing ''t1'' ''failed'' (Some ''transcribe'') None 0
       (start_recording_processing ''t1'' None 0 new_task_manager)"

text \<open>
  The values of \<open>float(raw)\<close> and \<open>int(raw)\<close> on the texts used in the example
  environments below; \<open>None\<close> on every other text.
\<close>

definition sample_float :: "string \<Rightarrow> pyfloat option" where
  "sample_float raw =
     (if raw = ''20'' then Some (Finite 20)
      else if raw = ''10'' then Some (Finite 10)
      else if raw = ''8'' then Some (Finite 8)
      else if raw = ''inf'' then Some PosInf
      else if raw = ''nan'' then Some NaN
      else None)"

definition sample_int :: "string \<Rightarrow> int option" where
  "sample_int raw = (if raw = ''25'' then Some 25 else None)"

definition inverted_bounds_environ :: environ where
  "inverted_bounds_environ =
     [''VOICE_CLONE_REF_HARD_MIN_SECONDS'' \<mapsto> ''20'',
      ''VOICE_CLONE_REF_RECOMMENDED_TARGET_SECONDS'' \<mapsto> ''10'',
      ''VOICE_CLONE_REF_HARD_MAX_SECONDS'' \<mapsto> ''8'']"

definition infinite_max_environ :: environ where
  "infinite_max_environ =
     [''VOICE_CLONE_REF_HARD_MIN_SECONDS'' \<mapsto> ''20'',
      ''VOICE_CLONE_REF_RECOMMENDED_TARGET_SECONDS'' \<mapsto> ''10'',
      ''VOICE_CLONE_REF_HARD_MAX_SECONDS'' \<mapsto> ''inf'']"

definition nan_min_environ :: environ where
  "nan_min_environ = [''VOICE_CLONE_REF_HARD_MIN_SECONDS'' \<mapsto> ''nan'']"


section \<open>Auxiliary facts about the selection\<close>

lemma py_int_nonneg: "0 \<le> x \<Longrightarrow> py_int x = \<lfloor>x\<rfloor>"
  by (simp add: py_int_def)

lemma window_samples_bounds:
  "0 < n \<Longrightarrow> 1 \<le> window_samples n sr t \<and> window_samples n sr t \<le> n"
  by (auto simp: window_samples_def)

lemma step_samples_pos: "1 \<le> step_samples sr s"
  by (simp add: step_samples_def)

lemma py_range_nonempty: "0 < stop \<Longrightarrow> 0 < step \<Longrightarrow> py_range stop step \<noteq> []"
  by (auto simp: py_range_def div_greater_zero_iff)

lemma py_range_bound:
  assumes "0 < step" "x \<in> set (py_range stop step)"
  shows "x < stop"
proof -
  from assms obtain k where k: "x = k * step" "k < (stop + step - 1) div step"
    by (auto simp: py_range_def)
  then have "Suc k \<le> (stop + step - 1) div step" by simp
  then have "Suc k * step \<le> stop + step - 1"
    using assms(1) by (simp add: less_eq_div_iff_mult_less_eq)
  then show ?thesis using k assms(1) by simp
qed

lemma scan_starts_nonempty: "0 < step \<Longrightarrow> scan_starts l step \<noteq> []"
  by (simp add: scan_starts_def Let_def py_range_nonempty)

lemma scan_starts_bound:
  "0 < step \<Longrightarrow> x \<in> set (scan_starts l step) \<Longrightarrow> x \<le> l"
  using py_range_bound [of step x "l + 1"]
  by (auto simp: scan_starts_def Let_def split: if_splits)

lemma fold_max_key:
  fixes f :: "'a \<Rightarrow> 'k::linorder"
  shows "fold (\<lambda>y best. if f best < f y then y else best) xs x \<in> set (x # xs) \<and>
         (\<forall>y \<in> set (x # xs). f y \<le> f (fold (\<lambda>y best. if f best < f y then y else best) xs x))"
proof (induction xs arbitrary: x)
  case Nil
  then show ?case by simp
next
  case (Cons a xs)
  show ?case
    using Cons.IH [of "if f x < f a then a else x"]
    by (auto split: if_splits)
qed

lemma py_max_key_Some:
  fixes f :: "'a \<Rightarrow> 'k::linorder"
  assumes "xs \<noteq> []"
  shows "\<exists>b. py_max_key f xs = Some b \<and> b \<in> set xs \<and> (\<forall>y \<in> set xs. f y \<le> f b)"
proof -
  from assms obtain x rest where xs: "xs = x # rest" by (cases xs) auto
  show ?thesis
    unfolding xs py_max_key_def using fold_max_key [of f rest x] by simp
qed

lemma length_slice: "e \<le> length xs \<Longrightarrow> length (slice xs s e) = e - s"
  by (simp add: slice_def)


lemma scan_candidates_nonempty:
  "scan_candidates audio sr t mr ms mc st \<noteq> []"
  using scan_starts_nonempty [of "step_samples sr st"] step_samples_pos [of sr st]
  by (simp add: scan_candidates_def Let_def)

lemma scan_candidates_window:
  assumes "audio \<noteq> []" and "c \<in> set (scan_candidates audio sr t mr ms mc st)"
  shows "c_end c = c_start c + window_samples (length audio) sr t"
    and "c_end c \<le> length audio"
    and "duration_seconds (c_metrics c)
           = real (length (slice audio (c_start c) (c_end c))) / real_of_int sr"
proof -
  let ?w = "window_samples (length audio) sr t"
  from assms(1) have w: "?w \<le> length audio"
    using window_samples_bounds [of "length audio" sr t] by simp
  from assms(2) obtain s where s: "s \<in> set (scan_starts (length audio - ?w) (step_samples sr st))"
    and c: "c = score_window audio sr ?w mr ms mc s"
    by (auto simp: scan_candidates_def Let_def)
  have "s \<le> length audio - ?w"
    using scan_starts_bound [OF _ s] step_samples_pos [of sr st] by simp
  with w have sw: "s + ?w \<le> length audio" by simp
  show "c_end c = c_start c + ?w" by (simp add: c score_window_def Let_def)
  show "c_end c \<le> length audio" using sw by (simp add: c score_window_def Let_def)
  show "duration_seconds (c_metrics c)
           = real (length (slice audio (c_start c) (c_end c))) / real_of_int sr"
    by (simp add: c score_window_def Let_def)
qed

lemma select_scan_path:
  assumes "audio \<noteq> []" and "0 < sr" and "window_samples (length audio) sr t < length audio"
  shows "\<exists>b. b \<in> set (scan_candidates audio sr t mr ms mc st) \<and>
           select_best_reference_segment audio sr t mr ms mc st v =
             Inr (slice audio (c_start b) (c_end b),
                  \<lparr>selected_start_ms = py_int (real (c_start b) / real_of_int sr * 1000),
                   selected_end_ms = py_int (real (c_end b) / real_of_int sr * 1000),
                   source_duration_ms = py_int (real (length audio) / real_of_int sr * 1000),
                   meta_metrics = c_metrics b,
                   fallback_reason =
                     (if \<exists>c \<in> set (scan_candidates audio sr t mr ms mc st). c_eligible c
                      then None else Some ''no_segment_met_quality_thresholds''),
                   meta_policy_version = v\<rparr>) \<and>
           (if \<exists>c \<in> set (scan_candidates audio sr t mr ms mc st). c_eligible c
            then c_eligible b \<and>
                 (\<forall>c \<in> set (scan_candidates audio sr t mr ms mc st).
                     c_eligible c \<longrightarrow> eligible_key c \<le> eligible_key b)
            else (\<forall>c \<in> set (scan_candidates audio sr t mr ms mc st).
                     fallback_key c \<le> fallback_key b))"
proof -
  let ?cs = "scan_candidates audio sr t mr ms mc st"
  show ?thesis
  proof (cases "filter c_eligible ?cs = []")
    case True
    then have none: "\<not> (\<exists>c \<in> set ?cs. c_eligible c)"
      by (simp add: filter_empty_conv)
    from py_max_key_Some [OF scan_candidates_nonempty, of fallback_key audio sr t mr ms mc st]
    obtain b where b: "py_max_key fallback_key ?cs = Some b" "b \<in> set ?cs"
      "\<forall>y \<in> set ?cs. fallback_key y \<le> fallback_key b" by blast
    show ?thesis
      apply (rule exI [of _ b])
      using assms b True none
      by (simp add: select_best_reference_segment_def Let_def)
  next
    case False
    then have some: "\<exists>c \<in> set ?cs. c_eligible c"
      by (simp add: filter_empty_conv)
    from py_max_key_Some [OF False, of eligible_key]
    obtain b where b: "py_max_key eligible_key (filter c_eligible ?cs) = Some b"
      "b \<in> set (filter c_eligible ?cs)"
      "\<forall>y \<in> set (filter c_eligible ?cs). eligible_key y \<le> eligible_key b" by blast
    show ?thesis
      apply (rule exI [of _ b])
      using assms b False some
      by (simp add: select_best_reference_segment_def Let_def)
  qed
qed

lemma select_fast_path:
  assumes "audio \<noteq> []" and "0 < sr" and "length audio \<le> window_samples (length audio) sr t"
  shows "select_best_reference_segment audio sr t mr ms mc st v =
          Inr (audio,
               \<lparr>selected_start_ms = 0,
                selected_end_ms = py_int (real (length audio) / real_of_int sr * 1000),
                source_duration_ms = py_int (real (length audio) / real_of_int sr * 1000),
                meta_metrics =
                  (compute_quality_metrics audio default_silence_threshold default_clipping_threshold)
                    \<lparr>duration_seconds := real (length audio) / real_of_int sr\<rparr>,
                fallback_reason = None,
                meta_policy_version = v\<rparr>)"
  using assms by (simp add: select_best_reference_segment_def Let_def)

lemma bool_mean_bounds: "bs \<noteq> [] \<Longrightarrow> 0 \<le> bool_mean bs \<and> bool_mean bs \<le> 1"
proof -
  assume ne: "bs \<noteq> []"
  have "0 \<le> sum_list (map (\<lambda>b. if b then 1 else 0 :: real) bs) \<and>
        sum_list (map (\<lambda>b. if b then 1 else 0 :: real) bs) \<le> real (length bs)"
    by (induction bs) auto
  with ne show ?thesis
    by (simp add: bool_mean_def mean_def divide_le_eq)
qed

lemma metrics_ratio_bounds:
  "0 \<le> silence_ratio (compute_quality_metrics xs a b) \<and>
   silence_ratio (compute_quality_metrics xs a b) \<le> 1 \<and>
   0 \<le> clipping_ratio (compute_quality_metrics xs a b) \<and>
   clipping_ratio (compute_quality_metrics xs a b) \<le> 1"
  using bool_mean_bounds [of "map (\<lambda>x. \<bar>x\<bar> \<le> a) xs"] bool_mean_bounds [of "map (\<lambda>x. b \<le> \<bar>x\<bar>) xs"]
  by (simp add: compute_quality_metrics_def Let_def comp_def)

lemma bool_mean_replicate: "0 < n \<Longrightarrow> bool_mean (replicate n b) = (if b then 1 else 0)"
  by (simp add: bool_mean_def mean_def sum_list_replicate)

lemma compute_quality_metrics_replicate:
  "0 < n \<Longrightarrow> compute_quality_metrics (replicate n x) a b =
     \<lparr>duration_seconds = real n, rms = \<bar>x\<bar>,
      silence_ratio = (if \<bar>x\<bar> \<le> a then 1 else 0),
      clipping_ratio = (if b \<le> \<bar>x\<bar> then 1 else 0),
      peak_abs = \<bar>x\<bar>\<rparr>"
  by (simp add: compute_quality_metrics_def Let_def bool_mean_replicate mean_def sum_list_replicate)

lemma score_window_ratio_bounds:
  "0 \<le> silence_ratio (c_metrics (score_window audio sr w mr ms mc s)) \<and>
   silence_ratio (c_metrics (score_window audio sr w mr ms mc s)) \<le> 1 \<and>
   0 \<le> clipping_ratio (c_metrics (score_window audio sr w mr ms mc s)) \<and>
   clipping_ratio (c_metrics (score_window audio sr w mr ms mc s)) \<le> 1"
  using metrics_ratio_bounds [of "slice audio s (s + w)" default_silence_threshold default_clipping_threshold]
  by (simp add: score_window_def Let_def)

lemma score_window_score:
  "c_score (score_window audio sr w mr ms mc s) =
     (1 - silence_ratio (c_metrics (score_window audio sr w mr ms mc s))) * (45 / 100)
     + min (rms (c_metrics (score_window audio sr w mr ms mc s)) / max (mr * 2) (1 / 10 ^ 8)) (3 / 2)
         * (40 / 100)
     + (1 - clipping_ratio (c_metrics (score_window audio sr w mr ms mc s))) * (15 / 100)
     - (if c_eligible (score_window audio sr w mr ms mc s) then 0 else 1)"
  by (simp add: score_window_def Let_def)

lemma score_window_eligible:
  "c_eligible (score_window audio sr w mr ms mc s) \<longleftrightarrow>
     mr \<le> rms (c_metrics (score_window audio sr w mr ms mc s)) \<and>
     silence_ratio (c_metrics (score_window audio sr w mr ms mc s)) \<le> ms \<and>
     clipping_ratio (c_metrics (score_window audio sr w mr ms mc s)) \<le> mc"
  by (simp add: score_window_def Let_def)

lemma weighted_score_lower:
  fixes S N C :: real
  assumes "S \<le> 1" "C \<le> 1" "1 / 2 \<le> N"
  shows "1 / 5 \<le> (1 - S) * (45 / 100) + N * (40 / 100) + (1 - C) * (15 / 100)"
proof -
  have "0 \<le> (1 - S) * (45 / 100)" "0 \<le> (1 - C) * (15 / 100)" using assms by simp_all
  moreover have "1 / 5 \<le> N * (40 / 100)" using assms by simp
  ultimately show ?thesis by linarith
qed

lemma weighted_score_upper:
  fixes S N C :: real
  assumes "0 \<le> S" "0 \<le> C" "N \<le> 3 / 2" "N < 1 / 2 \<or> 0 < S \<or> 0 < C"
  shows "(1 - S) * (45 / 100) + N * (40 / 100) + (1 - C) * (15 / 100) - 1 < 1 / 5"
proof -
  have a: "(1 - S) * (45 / 100) \<le> 45 / 100" "(1 - C) * (15 / 100) \<le> 15 / 100"
    using assms(1,2) by simp_all
  have b: "0 < S \<Longrightarrow> (1 - S) * (45 / 100) < 45 / 100"
    "0 < C \<Longrightarrow> (1 - C) * (15 / 100) < 15 / 100" by simp_all
  have c: "N * (40 / 100) \<le> 60 / 100" "N < 1 / 2 \<Longrightarrow> N * (40 / 100) < 20 / 100"
    using assms(3) by simp_all
  from assms(4) show ?thesis
  proof (elim disjE)
    assume "N < 1 / 2" with a c(2) show ?thesis by linarith
  next
    assume "0 < S" with a(2) b(1) c(1) show ?thesis by linarith
  next
    assume "0 < C" with a(1) b(2) c(1) show ?thesis by linarith
  qed
qed

lemma score_window_eligible_lower:
  assumes "1 / 10 ^ 8 \<le> 2 * mr" and "c_eligible (score_window audio sr w mr ms mc s)"
  shows "1 / 5 \<le> c_score (score_window audio sr w mr ms mc s)"
    and "0 \<le> ms" and "0 \<le> mc"
proof -
  let ?c = "score_window audio sr w mr ms mc s"
  let ?m = "c_metrics ?c"
  have el: "mr \<le> rms ?m" "silence_ratio ?m \<le> ms" "clipping_ratio ?m \<le> mc"
    using assms(2) by (simp_all add: score_window_eligible)
  note bd = score_window_ratio_bounds [of audio sr w mr ms mc s]
  from el bd show "0 \<le> ms" "0 \<le> mc" by linarith+
  have "(0::real) < 1 / 10 ^ 8" by simp
  with assms(1) have pos: "0 < 2 * mr" by linarith
  have d: "max (mr * 2) (1 / 10 ^ 8) = 2 * mr" using assms(1) by (simp add: max_def)
  have "1 / 2 \<le> rms ?m / (2 * mr)"
    using el(1) pos by (simp add: le_divide_eq)
  then have n: "1 / 2 \<le> min (rms ?m / (2 * mr)) (3 / 2)" by simp
  have sc: "c_score ?c = (1 - silence_ratio ?m) * (45 / 100)
      + min (rms ?m / (2 * mr)) (3 / 2) * (40 / 100) + (1 - clipping_ratio ?m) * (15 / 100)"
    by (simp only: score_window_score [of audio sr w mr ms mc s] d assms(2) if_True diff_0_right)
  show "1 / 5 \<le> c_score ?c"
    unfolding sc by (rule weighted_score_lower) (use bd n in simp_all)
qed

lemma score_window_ineligible_upper:
  assumes "1 / 10 ^ 8 \<le> 2 * mr" and "\<not> c_eligible (score_window audio sr w mr ms mc s)"
    and "0 \<le> ms" and "0 \<le> mc"
  shows "c_score (score_window audio sr w mr ms mc s) < 1 / 5"
proof -
  let ?c = "score_window audio sr w mr ms mc s"
  let ?m = "c_metrics ?c"
  note bd = score_window_ratio_bounds [of audio sr w mr ms mc s]
  have "(0::real) < 1 / 10 ^ 8" by simp
  with assms(1) have pos: "0 < 2 * mr" by linarith
  have d: "max (mr * 2) (1 / 10 ^ 8) = 2 * mr" using assms(1) by (simp add: max_def)
  have inel: "rms ?m < mr \<or> ms < silence_ratio ?m \<or> mc < clipping_ratio ?m"
    using assms(2) by (auto simp: score_window_eligible)
  have n: "min (rms ?m / (2 * mr)) (3 / 2) \<le> 3 / 2" by simp
  have "min (rms ?m / (2 * mr)) (3 / 2) < 1 / 2 \<or> 0 < silence_ratio ?m \<or> 0 < clipping_ratio ?m"
  proof -
    { assume "rms ?m < mr"
      then have "rms ?m / (2 * mr) < 1 / 2" using pos by (simp add: divide_less_eq)
      then have "min (rms ?m / (2 * mr)) (3 / 2) < 1 / 2" by simp }
    with inel assms(3,4) show ?thesis by force
  qed
  note k = this
  have sc: "c_score ?c = (1 - silence_ratio ?m) * (45 / 100)
      + min (rms ?m / (2 * mr)) (3 / 2) * (40 / 100) + (1 - clipping_ratio ?m) * (15 / 100) - 1"
    by (simp only: score_window_score [of audio sr w mr ms mc s] d assms(2) if_False)
  show ?thesis
    unfolding sc by (rule weighted_score_upper) (use bd n k in simp_all)
qed

text \<open>The all-zero four-second buffer at 1000 Hz, evaluated step by step.\<close>

lemma upt_0_2: "[0..<2] = [0, Suc 0]"
  by (simp add: numeral_2_eq_2)

lemma zero_window_metrics:
  "0 < n \<Longrightarrow> compute_quality_metrics (replicate n 0) default_silence_threshold default_clipping_threshold =
     \<lparr>duration_seconds = real n, rms = 0, silence_ratio = 1, clipping_ratio = 0, peak_abs = 0\<rparr>"
  by (simp add: compute_quality_metrics_replicate default_silence_threshold_def
      default_clipping_threshold_def)

lemma scenario_b_window: "window_samples 4000 1000 2 = 2000"
  by (simp add: window_samples_def py_int_def)

lemma scenario_b_step: "step_samples 1000 2 = 2000"
  by (simp add: step_samples_def py_int_def)

lemma scenario_b_starts: "scan_starts 2000 2000 = [0, 2000]"
  by (simp add: scan_starts_def py_range_def upt_0_2)

lemma scenario_b_score_window:
  "s \<le> 2000 \<Longrightarrow> score_window (replicate 4000 0) 1000 2000 (1 / 20) (1 / 100) 0 s =
     \<lparr>c_start = s, c_end = s + 2000, c_eligible = False, c_score = - (17 / 20),
      c_metrics = \<lparr>duration_seconds = 2, rms = 0, silence_ratio = 1, clipping_ratio = 0,
                   peak_abs = 0\<rparr>\<rparr>"
  by (simp add: score_window_def Let_def slice_def zero_window_metrics min_def)

lemma scenario_b_candidates:
  "scan_candidates (replicate 4000 0) 1000 2 (1 / 20) (1 / 100) 0 2 =
     [\<lparr>c_start = 0, c_end = 2000, c_eligible = False, c_score = - (17 / 20),
       c_metrics = \<lparr>duration_seconds = 2, rms = 0, silence_ratio = 1, clipping_ratio = 0,
                    peak_abs = 0\<rparr>\<rparr>,
      \<lparr>c_start = 2000, c_end = 4000, c_eligible = False, c_score = - (17 / 20),
       c_metrics = \<lparr>duration_seconds = 2, rms = 0, silence_ratio = 1, clipping_ratio = 0,
                    peak_abs = 0\<rparr>\<rparr>]"
  by (simp add: scan_candidates_def Let_def scenario_b_window scenario_b_step scenario_b_starts
      scenario_b_score_window)

lemma scenario_b_select:
  "select_best_reference_segment (replicate 4000 0) 1000 2 (1 / 20) (1 / 100) 0 2 v =
     Inr (replicate 2000 0,
          \<lparr>selected_start_ms = 0, selected_end_ms = 2000, source_duration_ms = 4000,
           meta_metrics = \<lparr>duration_seconds = 2, rms = 0, silence_ratio = 1,
                            clipping_ratio = 0, peak_abs = 0\<rparr>,
           fallback_reason = Some ''no_segment_met_quality_thresholds'',
           meta_policy_version = v\<rparr>)"
  by (simp add: select_best_reference_segment_def Let_def scenario_b_window
      scenario_b_candidates py_max_key_def fallback_key_def slice_def py_int_def)

lemma fallback_key_le:
  "fallback_key c \<le> fallback_key b \<longleftrightarrow> fallback_order_spec (c_metrics b) (c_metrics c)"
  by (auto simp: fallback_key_def fallback_order_spec_def less_eq_prod_def)

lemma select_returns:
  assumes "audio \<noteq> []" and "0 < sr"
  shows "\<exists>sel meta. select_best_reference_segment audio sr t mr ms mc st v = Inr (sel, meta)
           \<and> length sel = window_samples (length audio) sr t
           \<and> duration_seconds (meta_metrics meta) = real (length sel) / real_of_int sr"
proof (cases "length audio \<le> window_samples (length audio) sr t")
  case True
  moreover have "window_samples (length audio) sr t \<le> length audio"
    using window_samples_bounds [of "length audio" sr t] assms(1) by simp
  ultimately have "length audio = window_samples (length audio) sr t" by simp
  then show ?thesis
    using select_fast_path [OF assms True, of mr ms mc st v] by simp
next
  case False
  then have lt: "window_samples (length audio) sr t < length audio" by simp
  from select_scan_path [OF assms lt, of mr ms mc st v]
  obtain b where b: "b \<in> set (scan_candidates audio sr t mr ms mc st)"
    and sel: "select_best_reference_segment audio sr t mr ms mc st v =
             Inr (slice audio (c_start b) (c_end b),
                  \<lparr>selected_start_ms = py_int (real (c_start b) / real_of_int sr * 1000),
                   selected_end_ms = py_int (real (c_end b) / real_of_int sr * 1000),
                   source_duration_ms = py_int (real (length audio) / real_of_int sr * 1000),
                   meta_metrics = c_metrics b,
                   fallback_reason =
                     (if \<exists>c \<in> set (scan_candidates audio sr t mr ms mc st). c_eligible c
                      then None else Some ''no_segment_met_quality_thresholds''),
                   meta_policy_version = v\<rparr>)"
    by blast
  note w = scan_candidates_window [OF assms(1) b]
  have "length (slice audio (c_start b) (c_end b)) = window_samples (length audio) sr t"
    using w(1,2) by (simp add: length_slice)
  then show ?thesis using sel w(3) by simp
qed



text \<open>
  Claim C3. In the scan path, when no candidate window is eligible, the selected window is
  a candidate that is at least as good as every candidate in the order (silence ratio
  ascending, rms descending, clipping ratio ascending), whatever the scores are, and
  \<open>fallback_reason\<close> is \<open>no_segment_met_quality_thresholds\<close>.  In particular the all-zero
  four-second buffer at 1000 Hz with a two-second target and step, \<open>min_rms = 0.05\<close>,
  \<open>max_silence_ratio = 0.01\<close> and \<open>max_clipping_ratio = 0\<close> yields the window from 0 ms
  to 2000 ms with that reason.
\<close>

theorem fallback_selection:
  "(audio \<noteq> [] \<and> 0 < sample_rate
      \<and> window_samples (length audio) sample_rate target_seconds < length audio
      \<and> (\<forall>c \<in> set (scan_candidates audio sample_rate target_seconds rms_floor
                      silence_cap clipping_cap step_seconds).
             \<not> c_eligible c)
    \<longrightarrow> (\<exists>b \<in> set (scan_candidates audio sample_rate target_seconds rms_floor
                      silence_cap clipping_cap step_seconds).
           (\<forall>c \<in> set (scan_candidates audio sample_rate target_seconds rms_floor
                      silence_cap clipping_cap step_seconds).
               fallback_order_spec (c_metrics b) (c_metrics c))
           \<and> select_best_reference_segment audio sample_rate target_seconds rms_floor
               silence_cap clipping_cap step_seconds version =
             Inr (slice audio (c_start b) (c_end b),
                  \<lparr>selected_start_ms = py_int (real (c_start b) / real_of_int sample_rate * 1000),
                   selected_end_ms = py_int (real (c_end b) / real_of_int sample_rate * 1000),
                   source_duration_ms =
                     py_int (real (length audio) / real_of_int sample_rate * 1000),
                   meta_metrics = c_metrics b,
                   fallback_reason = Some ''no_segment_met_quality_thresholds'',
                   meta_policy_version = version\<rparr>)))
   \<and> select_best_reference_segment (replicate 4000 0) 1000 2 (1 / 20) (1 / 100) 0 2 version =
       Inr (replicate 2000 0,
            \<lparr>selected_start_ms = 0, selected_end_ms = 2000, source_duration_ms = 4000,
             meta_metrics = \<lparr>duration_seconds = 2, rms = 0, silence_ratio = 1,
                              clipping_ratio = 0, peak_abs = 0\<rparr>,
             fallback_reason = Some ''no_segment_met_quality_thresholds'',
             meta_policy_version = version\<rparr>)"
proof (intro conjI impI)
  let ?cs = "scan_candidates audio sample_rate target_seconds rms_floor
                      silence_cap clipping_cap step_seconds"
  assume h: "audio \<noteq> [] \<and> 0 < sample_rate
      \<and> window_samples (length audio) sample_rate target_seconds < length audio
      \<and> (\<forall>c \<in> set ?cs. \<not> c_eligible c)"
  then have a: "audio \<noteq> []" "0 < sample_rate"
    "window_samples (length audio) sample_rate target_seconds < length audio"
    and none: "\<not> (\<exists>c \<in> set ?cs. c_eligible c)" by simp_all
  from select_scan_path [OF a, of rms_floor silence_cap clipping_cap
      step_seconds version] none
  show "\<exists>b \<in> set ?cs.
           (\<forall>c \<in> set ?cs. fallback_order_spec (c_metrics b) (c_metrics c))
           \<and> select_best_reference_segment audio sample_rate target_seconds rms_floor
               silence_cap clipping_cap step_seconds version =
             Inr (slice audio (c_start b) (c_end b),
                  \<lparr>selected_start_ms = py_int (real (c_start b) / real_of_int sample_rate * 1000),
                   selected_end_ms = py_int (real (c_end b) / real_of_int sample_rate * 1000),
                   source_duration_ms =
                     py_int (real (length audio) / real_of_int sample_rate * 1000),
                   meta_metrics = c_metrics b,
                   fallback_reason = Some ''no_segment_met_quality_thresholds'',
                   meta_policy_version = version\<rparr>)"
    by (simp only: if_False fallback_key_le) blast
next
  show "select_best_reference_segment (replicate 4000 0) 1000 2 (1 / 20) (1 / 100) 0 2 version =
       Inr (replicate 2000 0,
            \<lparr>selected_start_ms = 0, selected_end_ms = 2000, source_duration_ms = 4000,
             meta_metrics = \<lparr>duration_seconds = 2, rms = 0, silence_ratio = 1,
                              clipping_ratio = 0, peak_abs = 0\<rparr>,
             fallback_reason = Some ''no_segment_met_quality_thresholds'',
             meta_policy_version = version\<rparr>)"
    by (rule scenario_b_select)
qed

text \<open>
  The general part of the statement at the all-zero buffer: its hypotheses hold there.
\<close>

theorem fallback_selection_witness:
  "replicate 4000 (0::real) \<noteq> [] \<and> (0::int) < 1000
   \<and> window_samples (length (replicate 4000 (0::real))) 1000 2 < length (replicate 4000 (0::real))
   \<and> filter c_eligible (scan_candidates (replicate 4000 0) 1000 2 (1 / 20) (1 / 100) 0 2) = []
   \<and> (\<exists>b \<in> set (scan_candidates (replicate 4000 0) 1000 2 (1 / 20) (1 / 100) 0 2).
         (\<forall>c \<in> set (scan_candidates (replicate 4000 0) 1000 2 (1 / 20) (1 / 100) 0 2).
             fallback_order_spec (c_metrics b) (c_metrics c))
         \<and> select_best_reference_segment (replicate 4000 0) 1000 2 (1 / 20) (1 / 100) 0 2
              ''test-policy'' =
            Inr (slice (replicate 4000 0) (c_start b) (c_end b),
                 \<lparr>selected_start_ms = py_int (real (c_start b) / real_of_int 1000 * 1000),
                  selected_end_ms = py_int (real (c_end b) / real_of_int 1000 * 1000),
                  source_duration_ms =
                    py_int (real (length (replicate 4000 (0::real))) / real_of_int 1000 * 1000),
                  meta_metrics = c_metrics b,
                  fallback_reason = Some ''no_segment_met_quality_thresholds'',
                  policy_version = ''test-policy''\<rparr>))"
proof -
  have h: "replicate 4000 (0::real) \<noteq> [] \<and> (0::int) < 1000
   \<and> window_samples (length (replicate 4000 (0::real))) 1000 2 < length (replicate 4000 (0::real))
   \<and> (\<forall>c \<in> set (scan_candidates (replicate 4000 0) 1000 2 (1 / 20) (1 / 100) 0 2). \<not> c_eligible c)"
    by (simp add: scenario_b_window scenario_b_candidates)
  have e: "filter c_eligible (scan_candidates (replicate 4000 0) 1000 2 (1 / 20) (1 / 100) 0 2) = []"
    by (simp add: scenario_b_candidates)
  from fallback_selection [THEN conjunct1, rule_format, OF h, of "''test-policy''"] h e
  show ?thesis by blast
qed




text \<open>
  Claim C10. On a non-empty buffer \<open>compute_quality_metrics\<close> reports
  \<open>duration_seconds\<close> as the number of samples, undivided; the metrics returned by
  \<open>select_best_reference_segment\<close> carry the length of the returned segment divided by
  the sample rate instead.
\<close>

theorem duration_seconds_is_sample_count:
  "(audio \<noteq> [] \<longrightarrow>
      duration_seconds (compute_quality_metrics audio silence_threshold clipping_threshold)
        = real (length audio))
   \<and> (audio \<noteq> [] \<and> 0 < sample_rate \<longrightarrow>
        (\<exists>sel meta.
           select_best_reference_segment audio sample_rate target_seconds rms_floor
             silence_cap clipping_cap step_seconds version = Inr (sel, meta)
           \<and> duration_seconds (meta_metrics meta) = real (length sel) / real_of_int sample_rate))"
proof (intro conjI impI)
  assume "audio \<noteq> []"
  then show "duration_seconds (compute_quality_metrics audio silence_threshold clipping_threshold)
        = real (length audio)"
    by (simp add: compute_quality_metrics_def Let_def)
next
  assume "audio \<noteq> [] \<and> 0 < sample_rate"
  then have a: "audio \<noteq> []" "0 < sample_rate" by simp_all
  from select_returns [OF a, of target_seconds rms_floor silence_cap
      clipping_cap step_seconds version]
  show "\<exists>sel meta.
           select_best_reference_segment audio sample_rate target_seconds rms_floor
             silence_cap clipping_cap step_seconds version = Inr (sel, meta)
           \<and> duration_seconds (meta_metrics meta) = real (length sel) / real_of_int sample_rate"
    by blast
qed

text \<open>
  Three samples: the standalone metrics say 3, the selection at 2 Hz says 3/2.
\<close>

theorem duration_seconds_is_sample_count_witness:
  "duration_seconds (compute_quality_metrics [1 / 2, 1 / 4, 0] (1 / 100) (99 / 100)) = 3
   \<and> (\<exists>sel meta.
         select_best_reference_segment [1 / 2, 1 / 4, 0] 2 5 (1 / 100) (45 / 100) (2 / 100) (1 / 2)
           ''v1'' = Inr (sel, meta)
         \<and> duration_seconds (meta_metrics meta) = real (length sel) / 2)"
  using duration_seconds_is_sample_count [of "[1 / 2, 1 / 4, 0]" "1 / 100" "99 / 100" 2 5
      "1 / 100" "45 / 100" "2 / 100" "1 / 2" "''v1''"]
  by simp

lemma sqrt_9_25: "sqrt (9 / 25) = 3 / 5"
  by (rule real_sqrt_unique) (simp_all add: power2_eq_square)

lemma score_gap_window: "window_samples (length score_gap_audio) 1 4 = 4"
  by (simp add: score_gap_audio_def window_samples_def py_int_def)

lemma score_gap_starts: "scan_starts 4 4 = [0, 4]"
  by (simp add: scan_starts_def py_range_def upt_0_2)

lemma score_gap_quiet_window:
  "score_window score_gap_audio 1 4 (1 / 10 ^ 10) 1 0 0 =
     \<lparr>c_start = 0, c_end = 4, c_eligible = True, c_score = 79 / 500,
      c_metrics = \<lparr>duration_seconds = 4, rms = 2 / 10 ^ 10, silence_ratio = 1,
                   clipping_ratio = 0, peak_abs = 2 / 10 ^ 10\<rparr>\<rparr>"
  by (simp add: score_window_def Let_def slice_def score_gap_audio_def
      compute_quality_metrics_replicate default_silence_threshold_def
      default_clipping_threshold_def)

lemma score_gap_loud_metrics:
  "compute_quality_metrics [1, 3 / 5, 1 / 5, 1 / 5] default_silence_threshold
       default_clipping_threshold =
     \<lparr>duration_seconds = 4, rms = 3 / 5, silence_ratio = 0, clipping_ratio = 1 / 4, peak_abs = 1\<rparr>"
proof -
  have m: "mean [1, 9 / 25, 1 / 25, 1 / 25 :: real] = 9 / 25"
    by (simp add: mean_def)
  have b0: "bool_mean [False, False, False, False] = 0"
    and b1: "bool_mean [True, False, False, False] = 1 / 4"
    by (simp_all add: bool_mean_def mean_def)
  show ?thesis
    by (simp add: compute_quality_metrics_def Let_def power2_eq_square m sqrt_9_25 b0 b1
        default_silence_threshold_def default_clipping_threshold_def)
qed

lemma score_gap_loud_window:
  "score_window score_gap_audio 1 4 (1 / 10 ^ 10) 1 0 4 =
     \<lparr>c_start = 4, c_end = 8, c_eligible = False, c_score = 13 / 80,
      c_metrics = \<lparr>duration_seconds = 4, rms = 3 / 5, silence_ratio = 0,
                   clipping_ratio = 1 / 4, peak_abs = 1\<rparr>\<rparr>"
proof -
  have "slice score_gap_audio 4 (4 + 4) = [1, 3 / 5, 1 / 5, 1 / 5]"
    by (simp add: slice_def score_gap_audio_def)
  then show ?thesis
    by (simp add: score_window_def Let_def score_gap_loud_metrics)
qed

lemma score_gap_candidates:
  "scan_candidates score_gap_audio 1 4 (1 / 10 ^ 10) 1 0 4 =
     [score_window score_gap_audio 1 4 (1 / 10 ^ 10) 1 0 0,
      score_window score_gap_audio 1 4 (1 / 10 ^ 10) 1 0 4]"
proof -
  have "length score_gap_audio = 8" by (simp add: score_gap_audio_def)
  moreover have "step_samples 1 4 = 4" by (simp add: step_samples_def py_int_def)
  ultimately show ?thesis
    using score_gap_window by (simp add: scan_candidates_def Let_def score_gap_starts)
qed

text \<open>
  Claim C9 says that an eligible window always scores strictly above an ineligible one.
  With \<open>min_rms = 1e-10\<close>, \<open>max_silence_ratio = 1\<close>, \<open>max_clipping_ratio = 0\<close> and a
  four-sample window at 1 Hz, the quiet window of \<open>score_gap_audio\<close> is eligible with score
  0.158, and the loud window with one clipped sample is ineligible with penalised score
  0.1625.
\<close>

theorem eligible_score_below_ineligible_counterexample:
  "scan_candidates score_gap_audio 1 4 (1 / 10 ^ 10) 1 0 4 =
     [\<lparr>c_start = 0, c_end = 4, c_eligible = True, c_score = 79 / 500,
       c_metrics = \<lparr>duration_seconds = 4, rms = 2 / 10 ^ 10, silence_ratio = 1,
                    clipping_ratio = 0, peak_abs = 2 / 10 ^ 10\<rparr>\<rparr>,
      \<lparr>c_start = 4, c_end = 8, c_eligible = False, c_score = 13 / 80,
       c_metrics = \<lparr>duration_seconds = 4, rms = 3 / 5, silence_ratio = 0,
                    clipping_ratio = 1 / 4, peak_abs = 1\<rparr>\<rparr>]
   \<and> (79 / 500 :: real) < 13 / 80"
  by (simp only: score_gap_candidates score_gap_quiet_window score_gap_loud_window) simp

text \<open>
  Claim C9, amended. When \<open>2 * min_rms \<ge> 1e-8\<close>, for every two candidate windows of one
  scan of which one is eligible and the other is not, the eligible window's score is
  strictly greater than the ineligible window's penalised score, where the score is
  \<open>0.45 * (1 - silence_ratio) + 0.40 * min (rms / max (2 * min_rms) 1e-8) 1.5
  + 0.15 * (1 - clipping_ratio)\<close>, minus 1 for the ineligible window.
\<close>

theorem eligible_outranks_ineligible:
  assumes "1 / 10 ^ 8 \<le> 2 * rms_floor"
    and "c1 \<in> set (scan_candidates audio sample_rate target_seconds rms_floor
                     silence_cap clipping_cap step_seconds)"
    and "c2 \<in> set (scan_candidates audio sample_rate target_seconds rms_floor
                     silence_cap clipping_cap step_seconds)"
    and "c_eligible c1" and "\<not> c_eligible c2"
  shows "c_score c2 < c_score c1
     \<and> c_score c1 = 45 / 100 * (1 - silence_ratio (c_metrics c1))
         + 40 / 100 * min (rms (c_metrics c1) / max (2 * rms_floor) (1 / 10 ^ 8)) (15 / 10)
         + 15 / 100 * (1 - clipping_ratio (c_metrics c1))
     \<and> c_score c2 = 45 / 100 * (1 - silence_ratio (c_metrics c2))
         + 40 / 100 * min (rms (c_metrics c2) / max (2 * rms_floor) (1 / 10 ^ 8)) (15 / 10)
         + 15 / 100 * (1 - clipping_ratio (c_metrics c2)) - 1"
proof -
  let ?w = "window_samples (length audio) sample_rate target_seconds"
  from assms(2) obtain s1 where
    c1: "c1 = score_window audio sample_rate ?w rms_floor silence_cap clipping_cap s1"
    by (auto simp: scan_candidates_def Let_def)
  from assms(3) obtain s2 where
    c2: "c2 = score_window audio sample_rate ?w rms_floor silence_cap clipping_cap s2"
    by (auto simp: scan_candidates_def Let_def)
  note lo = score_window_eligible_lower [OF assms(1) assms(4) [unfolded c1]]
  note hi = score_window_ineligible_upper [OF assms(1) assms(5) [unfolded c2] lo(2,3)]
  from lo(1) hi have "c_score c2 < c_score c1" unfolding c1 c2 by linarith
  moreover have "c_score c1 = 45 / 100 * (1 - silence_ratio (c_metrics c1))
         + 40 / 100 * min (rms (c_metrics c1) / max (2 * rms_floor) (1 / 10 ^ 8)) (15 / 10)
         + 15 / 100 * (1 - clipping_ratio (c_metrics c1))"
    using assms(4) unfolding c1
    by (simp add: score_window_score [of audio sample_rate ?w rms_floor silence_cap
          clipping_cap s1] mult.commute)
  moreover have "c_score c2 = 45 / 100 * (1 - silence_ratio (c_metrics c2))
         + 40 / 100 * min (rms (c_metrics c2) / max (2 * rms_floor) (1 / 10 ^ 8)) (15 / 10)
         + 15 / 100 * (1 - clipping_ratio (c_metrics c2)) - 1"
    using assms(5) unfolding c2
    by (simp add: score_window_score [of audio sample_rate ?w rms_floor silence_cap
          clipping_cap s2] mult.commute)
  ultimately show ?thesis by blast
qed

lemma voiced_gap_candidates:
  "scan_candidates voiced_gap_audio 1 2 (1 / 100) (9 / 20) (1 / 50) 2 =
     [\<lparr>c_start = 0, c_end = 2, c_eligible = False, c_score = - (17 / 20),
       c_metrics = \<lparr>duration_seconds = 2, rms = 0, silence_ratio = 1, clipping_ratio = 0,
                    peak_abs = 0\<rparr>\<rparr>,
      \<lparr>c_start = 2, c_end = 4, c_eligible = True, c_score = 6 / 5,
       c_metrics = \<lparr>duration_seconds = 2, rms = 1 / 5, silence_ratio = 0, clipping_ratio = 0,
                    peak_abs = 1 / 5\<rparr>\<rparr>]"
proof -
  have w: "window_samples 4 1 2 = 2"
    by (simp add: window_samples_def py_int_def)
  have st: "step_samples 1 2 = 2" by (simp add: step_samples_def py_int_def)
  have ss: "scan_starts 2 2 = [0, 2]"
    by (simp add: scan_starts_def py_range_def upt_0_2)
  have m0: "compute_quality_metrics [0, 0] (1 / 100) (99 / 100) =
      \<lparr>duration_seconds = 2, rms = 0, silence_ratio = 1, clipping_ratio = 0, peak_abs = 0\<rparr>"
    using compute_quality_metrics_replicate [of 2 0 "1 / 100" "99 / 100"]
    by (simp add: numeral_2_eq_2)
  have m1: "compute_quality_metrics [1 / 5, 1 / 5] (1 / 100) (99 / 100) =
      \<lparr>duration_seconds = 2, rms = 1 / 5, silence_ratio = 0, clipping_ratio = 0,
       peak_abs = 1 / 5\<rparr>"
    using compute_quality_metrics_replicate [of 2 "1 / 5" "1 / 100" "99 / 100"]
    by (simp add: numeral_2_eq_2)
  show ?thesis
    by (simp add: scan_candidates_def Let_def w st ss score_window_def slice_def
        voiced_gap_audio_def m0 m1 compute_quality_metrics_replicate
        default_silence_threshold_def
        default_clipping_threshold_def)
qed

text \<open>
  A silent window (ineligible) and a voiced window (eligible) under the default
  thresholds.
\<close>

theorem eligible_outranks_ineligible_witness:
  "(1 / 10 ^ 8 :: real) \<le> 2 * (1 / 100)
   \<and> c_eligible (scan_candidates voiced_gap_audio 1 2 (1 / 100) (9 / 20) (1 / 50) 2 ! 1)
   \<and> \<not> c_eligible (scan_candidates voiced_gap_audio 1 2 (1 / 100) (9 / 20) (1 / 50) 2 ! 0)
   \<and> c_score (scan_candidates voiced_gap_audio 1 2 (1 / 100) (9 / 20) (1 / 50) 2 ! 0)
       < c_score (scan_candidates voiced_gap_audio 1 2 (1 / 100) (9 / 20) (1 / 50) 2 ! 1)"
proof -
  let ?cs = "scan_candidates voiced_gap_audio 1 2 (1 / 100) (9 / 20) (1 / 50) 2"
  have h: "(1 / 10 ^ 8 :: real) \<le> 2 * (1 / 100)" by simp
  have m: "?cs ! 1 \<in> set ?cs" "?cs ! 0 \<in> set ?cs"
    by (simp_all add: voiced_gap_candidates)
  have e: "c_eligible (?cs ! 1)" "\<not> c_eligible (?cs ! 0)"
    by (simp_all add: voiced_gap_candidates)
  from eligible_outranks_ineligible [OF h m e] h e show ?thesis by blast
qed

text \<open>
  Claim C2. \<open>compute_quality_metrics\<close> on an empty buffer returns \<open>rms = 0\<close>,
  \<open>peak_abs = 0\<close>, \<open>silence_ratio = 1\<close>, \<open>clipping_ratio = 1\<close> and
  \<open>duration_seconds = 0\<close> for every pair of thresholds; the function has no failing
  branch, so the result is a value and never an error.
\<close>

text \<open>
  Claim C2. \<open>compute_quality_metrics\<close> on an empty buffer returns \<open>rms = 0\<close>,
  \<open>peak_abs = 0\<close>, \<open>silence_ratio = 1\<close>, \<open>clipping_ratio = 1\<close> and
  \<open>duration_seconds = 0\<close> for every pair of thresholds; the function has no failing
  branch, so the result is a value and never an error.
\<close>

theorem compute_quality_metrics_empty:
  "compute_quality_metrics [] silence_threshold clipping_threshold =
     \<lparr>duration_seconds = 0, rms = 0, silence_ratio = 1, clipping_ratio = 1, peak_abs = 0\<rparr>"
  by (simp add: compute_quality_metrics_def)


section \<open>Properties of the task tracker\<close>

text \<open>
  With unique keys, the listing keeps exactly the entries that are not stale errors.
\<close>

lemma fold_dict_del:
  "fold (\<lambda>tid st. st\<lparr>active_recording_tasks := dict_del (active_recording_tasks st) tid\<rparr>) ids s
     = s\<lparr>active_recording_tasks :=
           filter (\<lambda>kv. fst kv \<notin> set ids) (active_recording_tasks s)\<rparr>"
proof (induction ids arbitrary: s)
  case Nil
  then show ?case by simp
next
  case (Cons i ids)
  have "filter (\<lambda>kv. fst kv \<notin> set ids) (dict_del (active_recording_tasks s) i)
          = filter (\<lambda>kv. fst kv \<notin> set (i # ids)) (active_recording_tasks s)"
    by (auto simp: dict_del_def intro: filter_cong)
  then show ?case by (simp add: Cons.IH)
qed

lemma stale_ids_distinct:
  assumes "distinct (map fst d)" and "kv \<in> set d"
  shows "fst kv \<in> set (map fst (filter P d)) \<longleftrightarrow> P kv"
proof
  assume "fst kv \<in> set (map fst (filter P d))"
  then obtain kv' where kv': "kv' \<in> set d" "P kv'" "fst kv' = fst kv" by auto
  with assms have "kv' = kv" by (meson eq_key_imp_eq_value prod.expand distinct_map inj_onD)
  with kv' show "P kv" by simp
next
  assume "P kv"
  with assms(2) show "fst kv \<in> set (map fst (filter P d))" by force
qed

lemma get_active_filter:
  assumes "distinct (map fst (active_recording_tasks s))"
  shows "get_active_recording_tasks now s =
           (map snd (filter (\<lambda>kv. \<not> stale_error (now - expiry_seconds) s (snd kv))
                       (active_recording_tasks s)),
            s\<lparr>active_recording_tasks :=
                filter (\<lambda>kv. \<not> stale_error (now - expiry_seconds) s (snd kv))
                  (active_recording_tasks s)\<rparr>)"
proof -
  let ?P = "\<lambda>kv. stale_error (now - expiry_seconds) s (snd kv)"
  have "filter (\<lambda>kv. fst kv \<notin> set (map fst (filter ?P (active_recording_tasks s))))
          (active_recording_tasks s)
        = filter (\<lambda>kv. \<not> ?P kv) (active_recording_tasks s)"
    by (rule filter_cong [OF refl]) (simp only: stale_ids_distinct [OF assms])
  then show ?thesis
    by (simp add: get_active_recording_tasks_def Let_def fold_dict_del)
qed

lemma wf_manager_filter:
  assumes "wf_manager s"
  shows "wf_manager (s\<lparr>active_recording_tasks := filter P (active_recording_tasks s)\<rparr>)"
  using assms by (auto simp: wf_manager_def distinct_map_filter)

lemma wf_manager_new: "wf_manager new_task_manager"
  by (simp add: wf_manager_def new_task_manager_def)

lemma wf_get_active:
  assumes "wf_manager s"
  shows "wf_manager (snd (get_active_recording_tasks now s))"
proof -
  from assms have "distinct (map fst (active_recording_tasks s))"
    by (simp add: wf_manager_def)
  then show ?thesis
    using wf_manager_filter [OF assms] by (simp add: get_active_filter)
qed


lemma map_of_filter_distinct:
  assumes "distinct (map fst d)" and "map_of d k = Some a"
  shows "map_of (filter P d) k = (if P (k, a) then Some a else None)"
  using assms
proof (induction d)
  case Nil
  then show ?case by simp
next
  case (Cons kv d)
  obtain k' a' where kv: "kv = (k', a')" by (cases kv)
  show ?case
  proof (cases "k' = k")
    case True
    with Cons.prems kv have a: "a' = a" and notin: "k \<notin> fst ` set d" by auto
    then have "map_of (filter P d) k = None"
      by (auto simp: map_of_eq_None_iff)
    with True a kv show ?thesis by simp
  next
    case False
    with Cons kv show ?thesis by simp
  qed
qed

text \<open>
  Claim C5. For every task id and every stage outside \<open>upload\<close>, \<open>validate\<close>,
  \<open>transcribe\<close>, \<open>embed\<close>, \<open>save\<close>, \<open>update_recording_processing\<close> raises the
  invalid-stage \<open>ValueError\<close> and the tracker is exactly as before: the store of task
  objects and the dictionary are unchanged, so an existing record keeps every field and no
  record appears for an absent id.
\<close>

theorem update_invalid_stage_rejected:
  assumes "stg \<notin> {''upload'', ''validate'', ''transcribe'', ''embed'', ''save''}"
  shows "update_recording_processing tid stg prog msg now s =
           (Inl (ValueError (''Invalid processing stage: '' @ stg)), s)
         \<and> task_of (snd (update_recording_processing tid stg prog msg now s)) tid = task_of s tid
         \<and> is_recording_processing_active tid
               (snd (update_recording_processing tid stg prog msg now s))
             = is_recording_processing_active tid s"
  using assms by (simp add: update_recording_processing_def PROCESSING_STAGES_def)

text \<open>
  The rejected stage of the repository's test, on a tracker holding the task.
\<close>

theorem update_invalid_stage_rejected_witness:
  "''invalid-stage'' \<notin> {''upload'', ''validate'', ''transcribe'', ''embed'', ''save''}
   \<and> update_recording_processing ''task-invalid-stage'' ''invalid-stage'' (Some 10) None 5
        (start_recording_processing ''task-invalid-stage'' None 0 new_task_manager) =
       (Inl (ValueError ''Invalid processing stage: invalid-stage''),
        start_recording_processing ''task-invalid-stage'' None 0 new_task_manager)"
  using update_invalid_stage_rejected [of "''invalid-stage''" "''task-invalid-stage''" "Some 10"
      None 5 "start_recording_processing ''task-invalid-stage'' None 0 new_task_manager"]
  by simp

text \<open>
  Claim C6, amended. In a well-formed tracker, a record with status \<open>error\<close> whose
  \<open>updated_at\<close> is more than 30 seconds before the moment of listing is removed by that
  call and is absent from its result and from the result of every later listing of the
  tracker so obtained; an error record that is at most 30 seconds stale is retained and
  is in the result; a record with status \<open>running\<close> is retained whatever its age.  The
  listing changes no task object.
\<close>

theorem error_tasks_expire_after_thirty_seconds:
  assumes "wf_manager s" and "map_of (active_recording_tasks s) tid = Some a"
    and "heap s a = Some t"
  shows "(status t = ''error'' \<and> 30 * 1000000 < now - updated_at t \<longrightarrow>
            tid \<notin> fst ` set (active_recording_tasks (snd (get_active_recording_tasks now s)))
            \<and> a \<notin> set (fst (get_active_recording_tasks now s))
            \<and> (\<forall>later.
                  tid \<notin> fst ` set (active_recording_tasks
                            (snd (get_active_recording_tasks later
                                    (snd (get_active_recording_tasks now s)))))
                  \<and> a \<notin> set (fst (get_active_recording_tasks later
                                     (snd (get_active_recording_tasks now s))))))
       \<and> (status t = ''error'' \<and> now - updated_at t \<le> 30 * 1000000 \<longrightarrow>
            map_of (active_recording_tasks (snd (get_active_recording_tasks now s))) tid = Some a
            \<and> a \<in> set (fst (get_active_recording_tasks now s)))
       \<and> (status t = ''running'' \<longrightarrow>
            map_of (active_recording_tasks (snd (get_active_recording_tasks now s))) tid = Some a
            \<and> a \<in> set (fst (get_active_recording_tasks now s)))
       \<and> heap (snd (get_active_recording_tasks now s)) = heap s"
proof -
  let ?P = "\<lambda>kv. \<not> stale_error (now - expiry_seconds) s (snd kv)"
  let ?s' = "snd (get_active_recording_tasks now s)"
  from assms(1) have dk: "distinct (map fst (active_recording_tasks s))"
    and da: "distinct (map snd (active_recording_tasks s))"
    by (simp_all add: wf_manager_def)
  have act: "active_recording_tasks ?s' = filter ?P (active_recording_tasks s)"
    and refs: "fst (get_active_recording_tasks now s) = map snd (filter ?P (active_recording_tasks s))"
    and hp: "heap ?s' = heap s"
    by (simp_all add: get_active_filter [OF dk])
  have mem: "(tid, a) \<in> set (active_recording_tasks s)"
    using assms(2) by (rule map_of_SomeD)
  have look: "map_of (active_recording_tasks ?s') tid = (if ?P (tid, a) then Some a else None)"
    unfolding act by (rule map_of_filter_distinct [OF dk assms(2)])
  have stale: "stale_error (now - expiry_seconds) s a \<longleftrightarrow>
      status t = ''error'' \<and> 30 * 1000000 < now - updated_at t"
    using assms(3) by (auto simp: stale_error_def expiry_seconds_def)
  have in_refs: "a \<in> set (fst (get_active_recording_tasks now s)) \<longleftrightarrow> ?P (tid, a)"
  proof
    assume "a \<in> set (fst (get_active_recording_tasks now s))"
    then obtain kv where kv: "kv \<in> set (active_recording_tasks s)" "?P kv" "snd kv = a"
      unfolding refs by auto
    with mem da have "kv = (tid, a)"
      by (metis distinct_map inj_onD snd_conv)
    with kv show "?P (tid, a)" by simp
  next
    assume "?P (tid, a)"
    with mem show "a \<in> set (fst (get_active_recording_tasks now s))"
      unfolding refs by force
  qed
  have purged: "tid \<notin> fst ` set (active_recording_tasks ?s')
            \<and> a \<notin> set (fst (get_active_recording_tasks now s))
            \<and> (\<forall>later.
                  tid \<notin> fst ` set (active_recording_tasks
                            (snd (get_active_recording_tasks later ?s')))
                  \<and> a \<notin> set (fst (get_active_recording_tasks later ?s')))"
    if st: "stale_error (now - expiry_seconds) s a"
  proof -
    from look st have none: "map_of (active_recording_tasks ?s') tid = None" by simp
    then have k: "tid \<notin> fst ` set (active_recording_tasks ?s')"
      by (simp add: map_of_eq_None_iff)
    from in_refs st have r: "a \<notin> set (fst (get_active_recording_tasks now s))" by simp
    then have r': "a \<notin> snd ` set (active_recording_tasks ?s')"
      unfolding refs act by simp
    have dk': "distinct (map fst (active_recording_tasks ?s'))"
      using wf_get_active [OF assms(1), of now] by (simp add: wf_manager_def)
    have "\<And>later. tid \<notin> fst ` set (active_recording_tasks
                            (snd (get_active_recording_tasks later ?s')))
                  \<and> a \<notin> set (fst (get_active_recording_tasks later ?s'))"
      using k r' by (auto simp: get_active_filter [OF dk'])
    with k r show ?thesis by blast
  qed
  have kept: "map_of (active_recording_tasks ?s') tid = Some a
            \<and> a \<in> set (fst (get_active_recording_tasks now s))"
    if "\<not> stale_error (now - expiry_seconds) s a"
    using that look in_refs by simp
  show ?thesis
    using purged kept hp unfolding stale by auto
qed

lemma failed_task_manager_eq:
  "failed_task_manager =
     \<lparr>heap = [0 \<mapsto> \<lparr>task_id = ''t1'', stage = ''transcribe'', status = ''error'',
                      progress = Some 0, message = Some ''failed'', error = Some ''failed'',
                      started_at = 0, updated_at = 0\<rparr>],
      next_addr = Suc 0, active_recording_tasks = [(''t1'', 0)]\<rparr>"
  by (simp add: failed_task_manager_def error_recording_processing_def
      start_recording_processing_def new_task_manager_def alloc_def get_or_create_def
      modify_def str_or_def PROCESSING_STAGES_def)

lemma wf_failed_task_manager: "wf_manager failed_task_manager"
  by (simp add: failed_task_manager_eq wf_manager_def)

text \<open>
  Claim C6 says that an error record that is 30 seconds or more stale is purged.  A record
  failed at time 0 and listed at exactly 30 seconds is 30 seconds stale, and the listing
  returns it and leaves the tracker as it was.
\<close>

theorem error_task_thirty_seconds_stale_counterexample:
  "task_of failed_task_manager ''t1'' =
     Some \<lparr>task_id = ''t1'', stage = ''transcribe'', status = ''error'', progress = Some 0,
           message = Some ''failed'', error = Some ''failed'', started_at = 0, updated_at = 0\<rparr>
   \<and> (30 * 1000000 :: int) \<le> 30000000 - 0
   \<and> get_active_recording_tasks 30000000 failed_task_manager = ([0], failed_task_manager)"
  by (simp add: failed_task_manager_eq task_of_def get_active_recording_tasks_def Let_def
      stale_error_def expiry_seconds_def)

text \<open>
  The failed task listed after 31 seconds is gone; listed after 29 seconds it is there.
\<close>

theorem error_tasks_expire_after_thirty_seconds_witness:
  "wf_manager failed_task_manager
   \<and> map_of (active_recording_tasks failed_task_manager) ''t1'' = Some 0
   \<and> heap failed_task_manager 0 =
       Some \<lparr>task_id = ''t1'', stage = ''transcribe'', status = ''error'', progress = Some 0,
             message = Some ''failed'', error = Some ''failed'', started_at = 0, updated_at = 0\<rparr>
   \<and> ''t1'' \<notin> fst ` set (active_recording_tasks
                  (snd (get_active_recording_tasks 31000000 failed_task_manager)))
   \<and> 0 \<notin> set (fst (get_active_recording_tasks 31000000 failed_task_manager))
   \<and> map_of (active_recording_tasks
               (snd (get_active_recording_tasks 29000000 failed_task_manager))) ''t1'' = Some 0
   \<and> 0 \<in> set (fst (get_active_recording_tasks 29000000 failed_task_manager))"
proof -
  let ?t = "\<lparr>task_id = ''t1'', stage = ''transcribe'', status = ''error'', progress = Some 0,
             message = Some ''failed'', error = Some ''failed'', started_at = 0,
             updated_at = 0 :: int\<rparr>"
  have m: "map_of (active_recording_tasks failed_task_manager) ''t1'' = Some 0"
    by (simp add: failed_task_manager_eq)
  have h: "heap failed_task_manager 0 = Some ?t"
    by (simp add: failed_task_manager_eq)
  from error_tasks_expire_after_thirty_seconds [OF wf_failed_task_manager m h, of 31000000]
    error_tasks_expire_after_thirty_seconds [OF wf_failed_task_manager m h, of 29000000]
    wf_failed_task_manager m h
  show ?thesis by simp
qed

text \<open>
  Claim C7, amended. The list returned by the listing holds the references that the
  tracker's dictionary holds after the purge, in the dictionary's order, not copies: every
  record of the dictionary is reachable from the returned list, and assigning to the
  object behind a returned reference changes the record the tracker holds for that id;
  the dictionary itself (its keys and references) is not changed by such an assignment.
\<close>

theorem listing_returns_live_references:
  "fst (get_active_recording_tasks now s)
     = map snd (active_recording_tasks (snd (get_active_recording_tasks now s)))
   \<and> (map_of (active_recording_tasks (snd (get_active_recording_tasks now s))) tid = Some a
        \<and> heap (snd (get_active_recording_tasks now s)) a \<noteq> None
      \<longrightarrow> a \<in> set (fst (get_active_recording_tasks now s))
          \<and> task_of (caller_write a t' (snd (get_active_recording_tasks now s))) tid = Some t'
          \<and> active_recording_tasks (caller_write a t' (snd (get_active_recording_tasks now s)))
              = active_recording_tasks (snd (get_active_recording_tasks now s)))"
proof -
  let ?s' = "snd (get_active_recording_tasks now s)"
  have refs: "fst (get_active_recording_tasks now s) = map snd (active_recording_tasks ?s')"
    by (simp add: get_active_recording_tasks_def Let_def)
  have "a \<in> set (fst (get_active_recording_tasks now s))
          \<and> task_of (caller_write a t' ?s') tid = Some t'
          \<and> active_recording_tasks (caller_write a t' ?s') = active_recording_tasks ?s'"
    if m: "map_of (active_recording_tasks ?s') tid = Some a" and h: "heap ?s' a \<noteq> None"
  proof -
    from m have "(tid, a) \<in> set (active_recording_tasks ?s')" by (rule map_of_SomeD)
    then have "a \<in> set (fst (get_active_recording_tasks now s))"
      unfolding refs by force
    moreover have "task_of (caller_write a t' ?s') tid = Some t'"
      using m h by (simp add: task_of_def caller_write_def)
    moreover have "active_recording_tasks (caller_write a t' ?s') = active_recording_tasks ?s'"
      by (simp add: caller_write_def)
    ultimately show ?thesis by blast
  qed
  with refs show ?thesis by blast
qed

lemma started_task_manager_eq:
  "start_recording_processing ''t1'' None 0 new_task_manager =
     \<lparr>heap = [0 \<mapsto> \<lparr>task_id = ''t1'', stage = ''upload'', status = ''running'',
                      progress = Some 0, message = Some ''Uploading sample'', error = None,
                      started_at = 0, updated_at = 0\<rparr>],
      next_addr = Suc 0, active_recording_tasks = [(''t1'', 0)]\<rparr>"
  by (simp add: start_recording_processing_def new_task_manager_def alloc_def str_or_def)

lemma started_task_manager_listing:
  "get_active_recording_tasks 1 (start_recording_processing ''t1'' None 0 new_task_manager)
     = ([0], start_recording_processing ''t1'' None 0 new_task_manager)"
  by (simp add: started_task_manager_eq get_active_recording_tasks_def Let_def stale_error_def)

text \<open>
  A write through the reference returned for task \<open>t1\<close>.
\<close>

theorem listing_returns_live_references_witness:
  "map_of (active_recording_tasks
      (snd (get_active_recording_tasks 1
              (start_recording_processing ''t1'' None 0 new_task_manager)))) ''t1'' = Some 0
   \<and> heap (snd (get_active_recording_tasks 1
              (start_recording_processing ''t1'' None 0 new_task_manager))) 0 \<noteq> None
   \<and> 0 \<in> set (fst (get_active_recording_tasks 1
                    (start_recording_processing ''t1'' None 0 new_task_manager)))
   \<and> task_of (caller_write 0 (default_task ''t1'' 7)
                (snd (get_active_recording_tasks 1
                        (start_recording_processing ''t1'' None 0 new_task_manager)))) ''t1''
       = Some (default_task ''t1'' 7)"
proof -
  let ?s' = "snd (get_active_recording_tasks 1
                    (start_recording_processing ''t1'' None 0 new_task_manager))"
  have m: "map_of (active_recording_tasks ?s') ''t1'' = Some 0"
    and h: "heap ?s' 0 \<noteq> None"
    by (simp_all add: started_task_manager_listing) (simp_all add: started_task_manager_eq)
  from listing_returns_live_references [of 1
      "start_recording_processing ''t1'' None 0 new_task_manager" "''t1''" 0
      "default_task ''t1'' 7"] m h
  show ?thesis by blast
qed

text \<open>
  Claim C7 says that the listing returns copies.  After starting task \<open>t1\<close>, the listing
  returns the reference 0; writing a record with stage \<open>save\<close> through that reference
  changes the record the tracker itself holds for \<open>t1\<close>.
\<close>

theorem listing_copies_counterexample:
  "fst (get_active_recording_tasks 1
          (start_recording_processing ''t1'' None 0 new_task_manager)) = [0]
   \<and> task_of (snd (get_active_recording_tasks 1
                     (start_recording_processing ''t1'' None 0 new_task_manager))) ''t1''
       = Some \<lparr>task_id = ''t1'', stage = ''upload'', status = ''running'', progress = Some 0,
               message = Some ''Uploading sample'', error = None, started_at = 0,
               updated_at = 0\<rparr>
   \<and> task_of (caller_write 0
                 \<lparr>task_id = ''t1'', stage = ''save'', status = ''running'', progress = Some 0,
                  message = Some ''Uploading sample'', error = None, started_at = 0,
                  updated_at = 0\<rparr>
                 (snd (get_active_recording_tasks 1
                         (start_recording_processing ''t1'' None 0 new_task_manager)))) ''t1''
       = Some \<lparr>task_id = ''t1'', stage = ''save'', status = ''running'', progress = Some 0,
               message = Some ''Uploading sample'', error = None, started_at = 0,
               updated_at = 0\<rparr>"
  by (simp add: started_task_manager_listing)
     (simp add: started_task_manager_eq task_of_def caller_write_def)

text \<open>
  Well-formedness is an invariant: the empty tracker is well-formed and every operation
  preserves it.
\<close>

lemma set_dict_set: "set (dict_set d k v) \<subseteq> insert (k, v) (set d)"
  by (induction d) (auto split: if_splits)

lemma keys_dict_set: "fst ` set (dict_set d k v) = insert k (fst ` set d)"
proof (induction d)
  case Nil
  then show ?case by simp
next
  case (Cons kv d)
  obtain k' v' where kv: "kv = (k', v')" by (cases kv)
  show ?case
  proof (cases "k' = k")
    case True
    then show ?thesis by (simp add: kv)
  next
    case False
    then show ?thesis by (simp add: kv Cons.IH insert_commute)
  qed
qed

lemma distinct_keys_dict_set:
  "distinct (map fst d) \<Longrightarrow> distinct (map fst (dict_set d k v))"
proof (induction d)
  case Nil
  then show ?case by simp
next
  case (Cons kv d)
  then show ?case
    using keys_dict_set [of d k v] by (cases kv) auto
qed

lemma distinct_values_dict_set:
  "distinct (map snd d) \<Longrightarrow> v \<notin> snd ` set d \<Longrightarrow> distinct (map snd (dict_set d k v))"
proof (induction d)
  case Nil
  then show ?case by simp
next
  case (Cons kv d)
  have "snd ` set (dict_set d k v) \<subseteq> insert v (snd ` set d)"
    using set_dict_set [of d k v] by force
  with Cons show ?case by (cases kv) auto
qed

lemma wf_manager_bind:
  assumes "wf_manager s"
  shows "wf_manager
           (s\<lparr>heap := (heap s)(next_addr s \<mapsto> t\<lparr>task_id := k\<rparr>), next_addr := Suc (next_addr s),
              active_recording_tasks := dict_set (active_recording_tasks s) k (next_addr s)\<rparr>)"
proof -
  from assms have fresh: "next_addr s \<notin> snd ` set (active_recording_tasks s)"
    by (fastforce simp: wf_manager_def)
  have sub: "set (dict_set (active_recording_tasks s) k (next_addr s))
               \<subseteq> insert (k, next_addr s) (set (active_recording_tasks s))"
    by (rule set_dict_set)
  have "\<forall>(k', a) \<in> set (dict_set (active_recording_tasks s) k (next_addr s)).
          a < Suc (next_addr s)
          \<and> (\<exists>u. ((heap s)(next_addr s \<mapsto> t\<lparr>task_id := k\<rparr>)) a = Some u \<and> task_id u = k')"
  proof (clarify)
    fix k' a
    assume "(k', a) \<in> set (dict_set (active_recording_tasks s) k (next_addr s))"
    with sub have "(k', a) = (k, next_addr s) \<or> (k', a) \<in> set (active_recording_tasks s)"
      by auto
    then show "a < Suc (next_addr s)
          \<and> (\<exists>u. ((heap s)(next_addr s \<mapsto> t\<lparr>task_id := k\<rparr>)) a = Some u \<and> task_id u = k')"
    proof
      assume "(k', a) = (k, next_addr s)"
      then show ?thesis by simp
    next
      assume m: "(k', a) \<in> set (active_recording_tasks s)"
      with assms have "a < next_addr s" "\<exists>u. heap s a = Some u \<and> task_id u = k'"
        by (auto simp: wf_manager_def)
      then show ?thesis by auto
    qed
  qed
  with assms fresh show ?thesis
    by (simp add: wf_manager_def distinct_keys_dict_set distinct_values_dict_set)
qed

lemma wf_manager_modify:
  assumes "wf_manager s" and "\<And>t. task_id (f t) = task_id t"
  shows "wf_manager (modify a f s)"
  using assms by (fastforce simp: wf_manager_def modify_def)

lemma wf_start: "wf_manager s \<Longrightarrow> wf_manager (start_recording_processing tid msg now s)"
  using wf_manager_bind [where s = s and k = tid and t = "\<lparr>task_id = tid, stage = ''upload'',
      status = ''running'', progress = Some 0, message = Some (str_or msg ''Uploading sample''),
      error = None, started_at = now, updated_at = now\<rparr>"]
  by (simp add: start_recording_processing_def alloc_def)

lemma wf_get_or_create: "wf_manager s \<Longrightarrow> wf_manager (snd (get_or_create tid now s))"
  using wf_manager_bind [where s = s and k = tid and t = "default_task tid now"]
  by (simp add: get_or_create_def alloc_def default_task_def split: option.splits)

lemma wf_update:
  "wf_manager s \<Longrightarrow> wf_manager (snd (update_recording_processing tid stg prog msg now s))"
  using wf_get_or_create [of s tid now]
  by (auto simp: update_recording_processing_def split: prod.splits intro!: wf_manager_modify)

lemma wf_error:
  "wf_manager s \<Longrightarrow> wf_manager (error_recording_processing tid err stg msg now s)"
  using wf_get_or_create [of s tid now]
  by (auto simp: error_recording_processing_def split: prod.splits intro!: wf_manager_modify)

lemma wf_complete:
  "wf_manager s \<Longrightarrow> wf_manager (complete_recording_processing tid stg msg now s)"
  by (auto simp: complete_recording_processing_def Let_def dict_del_def
      split: option.splits intro!: wf_manager_filter wf_manager_modify)

lemma wf_complete_error:
  "wf_manager s \<Longrightarrow> wf_manager (complete_error_recording_processing tid s)"
  by (auto simp: complete_error_recording_processing_def dict_del_def intro!: wf_manager_filter)

section \<open>Properties of policy loading\<close>

text \<open>
  On policies whose float fields are finite the validator always returns, accepts exactly
  the policies that satisfy the cross-field invariants, and a rejected policy is replaced
  by the default as a whole.
\<close>

lemma issue_Nil [simp]: "issue c m = [] \<longleftrightarrow> \<not> c"
  by (simp add: issue_def)

lemma load_falls_back_wholesale:
  "validate_voice_clone_policy (resolve_voice_clone_reference_policy pf pint env)
      = Inr (False, reason)
   \<Longrightarrow> load_voice_clone_reference_policy pf pint env = Inr DEFAULT_VOICE_CLONE_POLICY"
  by (simp add: load_voice_clone_reference_policy_def)

lemma load_keeps_valid:
  "validate_voice_clone_policy (resolve_voice_clone_reference_policy pf pint env)
      = Inr (True, reason)
   \<Longrightarrow> load_voice_clone_reference_policy pf pint env
        = Inr (resolve_voice_clone_reference_policy pf pint env)"
  by (simp add: load_voice_clone_reference_policy_def)

lemma validate_finite_max_returns:
  "hard_max_seconds p = Finite x \<Longrightarrow> \<exists>r. validate_voice_clone_policy p = Inr r"
  by (auto simp: validate_voice_clone_policy_def Let_def)

lemma validate_finite_iff:
  assumes "hard_min_seconds p = Finite hmin" "recommended_target_seconds p = Finite tgt"
    "hard_max_seconds p = Finite hmax" "min_rms p = Finite mr"
    "max_silence_ratio p = Finite ms" "max_clipping_ratio p = Finite mc"
    "selection_step_seconds p = Finite stp"
  shows "validate_voice_clone_policy p = Inr (True, []) \<longleftrightarrow>
           0 < hmin \<and> 0 < tgt \<and> 0 < hmax \<and> hmin \<le> tgt \<and> tgt \<le> hmax
           \<and> 0 < capture_auto_stop_seconds p \<and> real_of_int (capture_auto_stop_seconds p) \<le> hmax
           \<and> 0 < mr \<and> 0 \<le> ms \<and> ms \<le> 1 \<and> 0 \<le> mc \<and> mc \<le> 1 \<and> 0 < stp"
proof -
  have fl: "0 < hmax \<Longrightarrow> (py_int hmax < capture_auto_stop_seconds p)
      = (\<not> real_of_int (capture_auto_stop_seconds p) \<le> hmax)"
    by (simp add: py_int_def le_floor_iff not_le [symmetric])
  show ?thesis
    using fl by (auto simp: validate_voice_clone_policy_def Let_def assms)
qed

lemma load_inverted_bounds:
  "load_voice_clone_reference_policy sample_float sample_int inverted_bounds_environ
     = Inr DEFAULT_VOICE_CLONE_POLICY"
  by (simp add: load_voice_clone_reference_policy_def resolve_voice_clone_reference_policy_def
      validate_voice_clone_policy_def env_float_def env_int_def inverted_bounds_environ_def
      sample_float_def DEFAULT_VOICE_CLONE_POLICY_def Let_def py_int_def issue_def)

text \<open>
  Claim C4. Loading must return the default policy whenever the resolved policy violates
  an invariant.  With \<open>hard_min_seconds = 20\<close>, \<open>recommended_target_seconds = 10\<close> and
  \<open>hard_max_seconds = inf\<close> in the environment the resolved policy violates
  \<open>hard_min_seconds \<le> recommended_target_seconds\<close>, and the validator's
  \<open>int(policy.hard_max_seconds)\<close> raises \<open>OverflowError\<close>: loading returns no policy.
\<close>

theorem load_policy_infinite_hard_max_raises:
  "hard_min_seconds (resolve_voice_clone_reference_policy sample_float sample_int
                       infinite_max_environ) = Finite 20
   \<and> recommended_target_seconds (resolve_voice_clone_reference_policy sample_float sample_int
                                   infinite_max_environ) = Finite 10
   \<and> hard_max_seconds (resolve_voice_clone_reference_policy sample_float sample_int
                         infinite_max_environ) = PosInf
   \<and> load_voice_clone_reference_policy sample_float sample_int infinite_max_environ
       = Inl (OverflowError ''cannot convert float infinity to integer'')"
  by (simp add: load_voice_clone_reference_policy_def resolve_voice_clone_reference_policy_def
      validate_voice_clone_policy_def env_float_def env_int_def infinite_max_environ_def
      sample_float_def DEFAULT_VOICE_CLONE_POLICY_def Let_def)

text \<open>
  A NaN field passes every comparison of the validator and is returned merged with the
  defaults.
\<close>

lemma load_nan_hard_min_accepted:
  "load_voice_clone_reference_policy sample_float sample_int nan_min_environ
     = Inr (DEFAULT_VOICE_CLONE_POLICY\<lparr>hard_min_seconds := NaN\<rparr>)"
  by (simp add: load_voice_clone_reference_policy_def resolve_voice_clone_reference_policy_def
      validate_voice_clone_policy_def env_float_def env_int_def nan_min_environ_def
      sample_float_def DEFAULT_VOICE_CLONE_POLICY_def Let_def py_int_def issue_def)

end
